theory Spec2Isabelle
  imports Complex_Main "HOL-Library.Multiset"
begin

section \<open>Numbers and strings of the host language\<close>

text \<open>
  The analyzer is TypeScript. Its \<open>number\<close> values are IEEE 754 double-precision numbers.
  Where the code only ever holds whole numbers (counts, depths, lines, thresholds) they are
  modelled as \<open>int\<close>, which is exact below \<open>2^53\<close>. Where it divides (averages, ratios,
  category scores) they are modelled as the \<open>rat\<close> that a finite double is, and every
  operation rounds its exact result to the nearest double (see \<open>dbl\<close> below); overflow
  to \<open>Infinity\<close> does not arise below \<open>2^1024\<close> and is not modelled. Strings are
  \<open>string\<close>, one \<open>char\<close> per UTF-16 code unit, which covers the code units below
  \<open>U+0100\<close> (ASCII and Latin-1).
\<close>

subsection \<open>String operations\<close>

text \<open>
  \<open>String.prototype.trim\<close> strips white space and line terminators from both ends; the
  regular expression class \<open>\s\<close> matches the same characters. Below \<open>U+0100\<close> these are
  TAB, LF, VT, FF, CR, the space and the no-break space.
\<close>

definition isWhiteSpace :: "char \<Rightarrow> bool" where
  "isWhiteSpace c =
     (c \<in> set [CHR 0x09, CHR 0x0A, CHR 0x0B, CHR 0x0C, CHR 0x0D, CHR 0x20, CHR 0xA0])"

definition trim :: "string \<Rightarrow> string" where
  "trim s = rev (dropWhile isWhiteSpace (rev (dropWhile isWhiteSpace s)))"

definition isUpper :: "char \<Rightarrow> bool" where
  "isUpper c = (c \<in> set ''ABCDEFGHIJKLMNOPQRSTUVWXYZ'')"

definition isLower :: "char \<Rightarrow> bool" where
  "isLower c = (c \<in> set ''abcdefghijklmnopqrstuvwxyz'')"

definition isDigit :: "char \<Rightarrow> bool" where
  "isDigit c = (c \<in> set ''0123456789'')"

text \<open>
  \<open>String.prototype.toLowerCase\<close>: below \<open>U+0100\<close> the letters with a lower-case form are
  A to Z and the Latin-1 capitals \<open>U+00C0\<close> to \<open>U+00DE\<close> without the multiplication sign
  \<open>U+00D7\<close>; the lower-case form is 32 code units further.
\<close>

definition toLowerChar :: "char \<Rightarrow> char" where
  "toLowerChar c =
     (case map_of (zip ''ABCDEFGHIJKLMNOPQRSTUVWXYZ'' ''abcdefghijklmnopqrstuvwxyz'') c of
        Some l \<Rightarrow> l
      | None \<Rightarrow>
          (let n = (of_char c :: nat)
           in if (0xC0 \<le> n \<and> n \<le> 0xD6) \<or> (0xD8 \<le> n \<and> n \<le> 0xDE)
              then char_of (n + 32) else c))"

definition toLowerCase :: "string \<Rightarrow> string" where
  "toLowerCase s = map toLowerChar s"

definition startsWith :: "string \<Rightarrow> string \<Rightarrow> bool" where
  "startsWith s p = (take (length p) s = p)"

text \<open>\<open>s.includes(c)\<close> for a one-character search string.\<close>

definition includesChar :: "string \<Rightarrow> char \<Rightarrow> bool" where
  "includesChar s c = (c \<in> set s)"

text \<open>
  \<open>s.split(sep)\<close> for a one-character separator: always at least one part, the parts
  are the maximal runs between separators. \<open>splitOn\<close> generalises the separator to a
  class of characters, as a regular expression matching exactly one character does.
\<close>

fun splitOn :: "(char \<Rightarrow> bool) \<Rightarrow> string \<Rightarrow> string list" where
  "splitOn sep [] = [[]]"
| "splitOn sep (c # cs) =
     (if sep c then [] # splitOn sep cs
      else (case splitOn sep cs of
              [] \<Rightarrow> [[c]]
            | part # parts \<Rightarrow> (c # part) # parts))"

definition split :: "char \<Rightarrow> string \<Rightarrow> string list" where
  "split sep s = splitOn (\<lambda>c. c = sep) s"

fun join :: "string \<Rightarrow> string list \<Rightarrow> string" where
  "join sep [] = []"
| "join sep [p] = p"
| "join sep (p # q # ps) = p @ sep @ join sep (q # ps)"

text \<open>\<open>s.replace(/[^...]/gi, '-')\<close>: every character outside the class becomes a dash.\<close>

definition replaceOutside :: "(char \<Rightarrow> bool) \<Rightarrow> string \<Rightarrow> string" where
  "replaceOutside keep s = map (\<lambda>c. if keep c then c else CHR ''-'') s"

text \<open>
  Template-literal rendering of a whole number: decimal digits, a minus sign if negative.
  JavaScript renders so every whole number of magnitude below \<open>10^21\<close>, which includes
  the whole numbers that a double holds exactly, those of magnitude up to \<open>2^53\<close>.
\<close>

fun natToString :: "nat \<Rightarrow> string" where
  "natToString n =
     (if n < 10 then [''0123456789'' ! n]
      else natToString (n div 10) @ [''0123456789'' ! (n mod 10)])"

declare natToString.simps [simp del]

definition numToString :: "int \<Rightarrow> string" where
  "numToString i = (if i < 0 then CHR ''-'' # natToString (nat (- i)) else natToString (nat i))"

text \<open>
  A number received from outside: whole, infinite or \<open>NaN\<close>. The command line and the
  YAML reader produce \<open>maxScore\<close> with \<open>parseInt\<close>, which returns a whole number or
  \<open>NaN\<close>. Every comparison with \<open>NaN\<close> is false. Fractions are not modelled.
\<close>

datatype JsNumber = Num int | PosInfinity | NegInfinity | NaN



subsection \<open>Double-precision arithmetic\<close>

text \<open>
  \<open>dbl x\<close> is the double nearest to the rational \<open>x\<close>: 53 significant bits, a tie to
  the even significand, gradual underflow below \<open>2^-1022\<close>. \<open>binaryExponent a\<close> is the
  \<open>e\<close> with \<open>2^e \<le> a < 2^(e+1)\<close> for a positive \<open>a\<close>. Addition, multiplication and
  division of doubles are the exact operations followed by \<open>dbl\<close>, and a decimal literal
  such as \<open>0.3\<close> denotes \<open>dbl (3 / 10)\<close>.
\<close>

function bitLength :: "int \<Rightarrow> int" where
  "bitLength n = (if n \<le> 0 then 0 else 1 + bitLength (n div 2))"
  by pat_completeness auto
termination
  by (relation "measure nat") auto

declare bitLength.simps [simp del]

definition pow2 :: "int \<Rightarrow> rat" where
  "pow2 k = (if k \<ge> 0 then 2 ^ nat k else 1 / 2 ^ nat (- k))"

definition binaryExponent :: "rat \<Rightarrow> int" where
  "binaryExponent a =
     (case quotient_of a of (p, q) \<Rightarrow>
        let e0 = bitLength p - bitLength q
        in if pow2 e0 \<le> a then e0 else e0 - 1)"

definition roundHalfEven :: "rat \<Rightarrow> int" where
  "roundHalfEven q =
     (let n = \<lfloor>q\<rfloor>; r = q - of_int n
      in if r < 1 / 2 then n
         else if r > 1 / 2 then n + 1
         else if even n then n else n + 1)"

definition dbl :: "rat \<Rightarrow> rat" where
  "dbl x =
     (if x = 0 then 0
      else
        let a = \<bar>x\<bar>;
            e = max (binaryExponent a) (- 1022);
            ulp = pow2 (e - 52);
            n = roundHalfEven (a / ulp)
        in sgn x * of_int n * ulp)"

definition dadd :: "rat \<Rightarrow> rat \<Rightarrow> rat" where
  "dadd x y = dbl (x + y)"

definition dmul :: "rat \<Rightarrow> rat \<Rightarrow> rat" where
  "dmul x y = dbl (x * y)"

text \<open>Division; no divisor of this program is zero where \<open>ddiv\<close> is used.\<close>

definition ddiv :: "rat \<Rightarrow> rat \<Rightarrow> rat" where
  "ddiv x y = dbl (x / y)"

text \<open>
  \<open>Math.round\<close> rounds to the nearest integer, a tie towards positive infinity; it is
  exact on the double it is given.
\<close>

definition mathRound :: "rat \<Rightarrow> int" where
  "mathRound x = \<lfloor>x + 1 / 2\<rfloor>"

text \<open>\<open>Math.round(x * 100) / 100\<close>.\<close>

definition round2 :: "rat \<Rightarrow> rat" where
  "round2 x = ddiv (of_int (mathRound (dmul x 100))) 100"

subsection \<open>Errors\<close>

text \<open>
  Reading a property of \<open>undefined\<close> raises a \<open>TypeError\<close>. A call that spreads an array,
  \<open>f(...xs)\<close>, passes one argument per element, and the engine raises a \<open>RangeError\<close>
  when a call has more arguments than its stack holds. That bound is a property of the
  engine and not of the program: it is the parameter \<open>argLimit\<close> of every function that
  spreads.
\<close>

datatype Error = TypeError | RangeError

definition spreadFits :: "nat \<Rightarrow> 'a list \<Rightarrow> bool" where
  "spreadFits argLimit args = (length args \<le> argLimit)"

text \<open>Sequencing: a raised error ends the computation.\<close>

definition andThen :: "Error + 'a \<Rightarrow> ('a \<Rightarrow> Error + 'b) \<Rightarrow> Error + 'b" where
  "andThen r f = (case r of Inl e \<Rightarrow> Inl e | Inr v \<Rightarrow> f v)"

subsection \<open>Specificity (types.ts, parser.ts)\<close>

text \<open>
  \<open>interface Specificity { ids: number; classes: number; elements: number }\<close>.
  The parser fills it with whole numbers; the metrics also store per-component averages
  in the same interface, hence the type parameter.
\<close>

record 'n Specificity =
  ids :: 'n
  classes :: 'n
  elements :: 'n

definition specificityToScore :: "('n::linordered_idom) Specificity \<Rightarrow> 'n" where
  "specificityToScore specificity =
     ids specificity * 100 + classes specificity * 10 + elements specificity"

text \<open>
  The same function on components that may carry a fraction (the averages): the same
  expression, each operation rounded.
\<close>

definition specificityToScoreDouble :: "rat Specificity \<Rightarrow> rat" where
  "specificityToScoreDouble specificity =
     dadd (dadd (dmul (ids specificity) 100) (dmul (classes specificity) 10))
          (elements specificity)"

definition compareSpecificity ::
  "('n::linordered_idom) Specificity \<Rightarrow> 'n Specificity \<Rightarrow> 'n" where
  "compareSpecificity a b =
     (if ids a \<noteq> ids b then ids a - ids b
      else if classes a \<noteq> classes b then classes a - classes b
      else elements a - elements b)"

text \<open>
  \<open>findMaxSpecificity\<close>: \<open>Array.prototype.reduce\<close> without an initial value starts from
  the first element and folds the callback over the rest, left to right.
\<close>

definition findMaxSpecificity ::
  "('n::linordered_idom) Specificity list \<Rightarrow> 'n Specificity" where
  "findMaxSpecificity specificities =
     (case specificities of
        [] \<Rightarrow> \<lparr>ids = 0, classes = 0, elements = 0\<rparr>
      | first # rest \<Rightarrow>
          foldl (\<lambda>mx current. if compareSpecificity current mx > 0 then current else mx)
            first rest)"

subsection \<open>Selector depth (parser.ts)\<close>

text \<open>
  \<open>calculateSelectorDepth\<close> hands the selector to the postcss-selector-parser library and
  counts nodes of its syntax tree. Every node of that tree has a \<open>type\<close>, a \<open>value\<close> and,
  for the containers (\<open>root\<close>, \<open>selector\<close> and a \<open>pseudo\<close> with arguments), child
  \<open>nodes\<close>. The arguments of a functional pseudo-class such as \<open>:not(...)\<close> are \<open>selector\<close>
  children of the \<open>pseudo\<close> node. The library's parser is a parameter here; \<open>None\<close> is a
  parser that throws.
\<close>

datatype NodeType =
    TAttribute | TClass | TCombinator | TComment | TId | TNesting
  | TPseudo | TRoot | TSelector | TString | TTag | TUniversal

datatype Node = Node (node_type: NodeType) (node_value: string) (nodes: "Node list")

text \<open>
  \<open>container.walk(callback)\<close> calls the callback on each child and then, when the child
  has children of its own, walks them, before going on to the next child. The callbacks
  of this program return nothing, so the walk is never cut short; what they do to the
  variables they close over is the state \<open>st\<close>.
\<close>

fun walk :: "(Node \<Rightarrow> 's \<Rightarrow> 's) \<Rightarrow> Node \<Rightarrow> 's \<Rightarrow> 's" where
  "walk callback (Node t v children) st =
     foldl (\<lambda>s child. walk callback child (callback child s)) st children"

definition calculateSelectorDepth :: "(string \<Rightarrow> Node option) \<Rightarrow> string \<Rightarrow> int" where
  "calculateSelectorDepth parse selector =
     (case parse selector of
        None \<Rightarrow>
          int (length (filter (\<lambda>s. trim s \<noteq> [])
                 (splitOn (\<lambda>c. isWhiteSpace c \<or> c \<in> set ''>+~'') selector)))
      | Some ast \<Rightarrow>
          walk (\<lambda>node d. if node_type node = TCombinator then d + 1 else d) ast 1)"

text \<open>
  Two ways of counting combinators in a parsed selector: among all the nodes below the
  root, and among the children of the root's own selectors only (the top level, outside
  every pseudo-class argument).
\<close>

fun descendants :: "Node \<Rightarrow> Node list" where
  "descendants (Node t v children) = concat (map (\<lambda>c. c # descendants c) children)"

definition countCombinators :: "Node list \<Rightarrow> int" where
  "countCombinators ns = int (length (filter (\<lambda>n. node_type n = TCombinator) ns))"

definition topLevelNodes :: "Node \<Rightarrow> Node list" where
  "topLevelNodes ast = concat (map nodes (nodes ast))"

text \<open>The tree of \<open>:not(.a > .b)\<close>.\<close>

definition notChildTree :: Node where
  "notChildTree =
     Node TRoot [] [Node TSelector []
       [Node TPseudo '':not'' [Node TSelector []
          [Node TClass ''a'' [], Node TCombinator ''>'' [], Node TClass ''b'' []]]]]"

subsection \<open>Parsed stylesheets (types.ts)\<close>

record ParsedSelector =
  raw :: string
  depth :: int
  specificity :: "int Specificity"
  hasId :: bool
  hasPseudoClass :: bool
  hasPseudoElement :: bool
  hasAttribute :: bool

text \<open>\<open>interface ParsedDeclaration { property; value; important }\<close>.\<close>

record ParsedDeclaration =
  property :: string
  decl_value :: string
  important :: bool

text \<open>An optional field (\<open>line?: number\<close>) is an \<open>option\<close>: \<open>None\<close> is \<open>undefined\<close>.\<close>

record ParsedRule =
  selectors :: "ParsedSelector list"
  declarations :: "ParsedDeclaration list"
  rule_file :: string
  line :: "int option"
  column :: "int option"
  layer :: "string option"

record ParseResult =
  pr_file :: string
  rules :: "ParsedRule list"
  errors :: "string list"
  layers :: "string list"
  usesLayers :: bool

subsection \<open>Metrics, issues and the report (types.ts)\<close>

record FileMetrics =
  fm_file :: string
  fm_totalRules :: int
  fm_totalSelectors :: int
  fm_totalDeclarations :: int
  fm_maxSelectorDepth :: int
  fm_avgSelectorDepth :: rat
  fm_maxSpecificity :: "int Specificity"
  fm_avgSpecificity :: "rat Specificity"
  fm_importantCount :: int
  fm_duplicateDeclarationCount :: int
  fm_layoutRiskScore :: int

record GlobalMetrics =
  totalFiles :: int
  totalRules :: int
  totalSelectors :: int
  totalDeclarations :: int
  gm_maxSelectorDepth :: int
  avgSelectorDepth :: rat
  maxSpecificity :: "int Specificity"
  avgSpecificity :: "rat Specificity"
  totalImportantCount :: int
  totalDuplicateDeclarations :: int
  overallLayoutRiskScore :: int

datatype Severity = Low | Medium | High | Critical

datatype IssueId =
    DEEP_SELECTOR
  | HIGH_SPECIFICITY
  | IMPORTANT_ABUSE
  | DUPLICATE_DECLARATIONS
  | LAYOUT_RISK_HOTSPOT
  | OVERRIDE_PRESSURE
  | MISSING_LAYERS

datatype IssueTag =
    TagSpecificity
  | TagCascade
  | TagOverride
  | TagLayoutRisk
  | TagDuplication
  | TagMaintainability
  | TagLayer

record Evidence =
  ev_file :: string
  ev_selector :: "string option"
  ev_property :: "string option"
  ev_value :: "string option"
  ev_line :: "int option"
  ev_column :: "int option"
  ev_specificity :: "int Specificity option"
  ev_depth :: "int option"
  ev_count :: "int option"

record Suggestion =
  action :: string
  description :: string

record Issue =
  issue_id :: IssueId
  severity :: Severity
  confidence :: rat
  title :: string
  why :: string
  evidence :: Evidence
  suggestions :: "Suggestion list"
  tags :: "IssueTag list"

record TopSelector =
  ts_selector :: string
  ts_file :: string
  ts_line :: "int option"
  ts_specificity :: "int Specificity"
  ts_depth :: int
  score :: int

record CategoryScores =
  cs_specificity :: rat
  cascade :: rat
  duplication :: rat
  layoutRisk :: rat

datatype Grade = GradeA | GradeB | GradeC | GradeD | GradeF

text \<open>\<open>Record<Severity, number>\<close>: one counter per severity.\<close>

record SeverityCounts =
  critical :: nat
  high :: nat
  medium :: nat
  low :: nat

record Summary =
  overallScore :: int
  categoryScores :: CategoryScores
  grade :: Grade
  totalIssues :: int
  issuesBySeverity :: SeverityCounts

datatype Priority = PriorityHigh | PriorityMedium | PriorityLow

record Recommendation =
  category :: string
  rec_title :: string
  rec_description :: string
  priority :: Priority
  relatedIssueIds :: "IssueId list"

record Report =
  version :: string
  timestamp :: string
  summary :: Summary
  globalMetrics :: GlobalMetrics
  fileMetrics :: "FileMetrics list"
  issues :: "Issue list"
  topSelectors :: "TopSelector list"
  recommendations :: "Recommendation list"

subsection \<open>Configuration (types.ts)\<close>

text \<open>
  \<open>AnalyzerConfig\<close>: every field optional, at both levels. At the top level \<open>None\<close> is a
  property that is absent, \<open>undefined\<close> or \<open>null\<close>, which \<open>??\<close> does not tell apart. In
  the two nested objects the object spread of \<open>mergeConfig\<close> does tell an absent property
  from one that is there and holds \<open>undefined\<close> or \<open>null\<close>, so their fields have three
  states. \<open>Required<AnalyzerConfig>\<close> makes the six top-level fields mandatory and leaves the
  nested ones optional.
\<close>

datatype 'a Field = Absent | Undefined | Defined 'a

record Thresholds =
  maxSelectorDepth :: "int Field"
  maxSpecificityScore :: "int Field"
  maxImportantPerFile :: "int Field"
  maxDuplicateDeclarations :: "int Field"

record RuleToggles =
  deepSelectors :: "bool Field"
  highSpecificity :: "bool Field"
  importantAbuse :: "bool Field"
  duplicateDeclarations :: "bool Field"
  layoutRiskHotspot :: "bool Field"
  overridePressure :: "bool Field"
  missingLayers :: "bool Field"

record AnalyzerConfig =
  cfg_include :: "string list option"
  cfg_exclude :: "string list option"
  thresholds :: "Thresholds option"
  ignorePatterns :: "string list option"
  maxScore :: "JsNumber option"
  cfg_rules :: "RuleToggles option"

record RequiredConfig =
  req_include :: "string list"
  req_exclude :: "string list"
  req_thresholds :: Thresholds
  req_ignorePatterns :: "string list"
  req_maxScore :: JsNumber
  req_rules :: RuleToggles

text \<open>
  A \<open>Required<AnalyzerConfig>\<close> is passed where an \<open>AnalyzerConfig\<close> is expected (the
  rule engine); at run time it is the same object.
\<close>

definition asAnalyzerConfig :: "RequiredConfig \<Rightarrow> AnalyzerConfig" where
  "asAnalyzerConfig c =
     \<lparr>cfg_include = Some (req_include c), cfg_exclude = Some (req_exclude c),
      thresholds = Some (req_thresholds c), ignorePatterns = Some (req_ignorePatterns c),
      maxScore = Some (req_maxScore c), cfg_rules = Some (req_rules c)\<rparr>"

section \<open>Metrics (metrics.ts)\<close>

definition LAYOUT_PROPERTIES :: "string list" where
  "LAYOUT_PROPERTIES =
     [''width'', ''height'', ''min-width'', ''min-height'', ''max-width'', ''max-height'',
      ''top'', ''left'', ''right'', ''bottom'',
      ''margin'', ''margin-top'', ''margin-right'', ''margin-bottom'', ''margin-left'',
      ''padding'', ''padding-top'', ''padding-right'', ''padding-bottom'', ''padding-left'',
      ''display'', ''position'', ''float'', ''clear'',
      ''flex'', ''flex-basis'', ''flex-grow'', ''flex-shrink'', ''flex-direction'', ''flex-wrap'',
      ''justify-content'', ''align-items'', ''align-self'', ''align-content'', ''order'',
      ''grid'', ''grid-template'', ''grid-template-columns'', ''grid-template-rows'',
      ''grid-template-areas'', ''grid-column'', ''grid-row'', ''grid-area'', ''grid-gap'',
      ''gap'', ''row-gap'', ''column-gap'',
      ''border'', ''border-width'', ''border-top-width'', ''border-right-width'',
      ''border-bottom-width'', ''border-left-width'',
      ''box-sizing'', ''overflow'', ''overflow-x'', ''overflow-y'',
      ''white-space'', ''word-wrap'', ''word-break'', ''text-overflow'',
      ''table-layout'', ''vertical-align'', ''line-height'', ''font-size'', ''writing-mode'',
      ''columns'', ''column-count'', ''column-width'', ''column-span'',
      ''break-before'', ''break-after'', ''break-inside'']"

text \<open>\<open>LAYOUT_PROPERTIES.has(p)\<close>.\<close>

definition isLayoutProperty :: "string \<Rightarrow> bool" where
  "isLayoutProperty p = (p \<in> set LAYOUT_PROPERTIES)"

record RiskyCombination =
  properties :: "string list"
  riskMultiplier :: rat

definition RISKY_COMBINATIONS :: "RiskyCombination list" where
  "RISKY_COMBINATIONS =
     [\<lparr>properties = [''position'', ''top'', ''left''], riskMultiplier = 3 / 2\<rparr>,
      \<lparr>properties = [''position'', ''top'', ''right''], riskMultiplier = 3 / 2\<rparr>,
      \<lparr>properties = [''position'', ''bottom'', ''left''], riskMultiplier = 3 / 2\<rparr>,
      \<lparr>properties = [''position'', ''bottom'', ''right''], riskMultiplier = 3 / 2\<rparr>,
      \<lparr>properties = [''float'', ''width''], riskMultiplier = 13 / 10\<rparr>,
      \<lparr>properties = [''display'', ''position''], riskMultiplier = 6 / 5\<rparr>]"

definition calculateAverage :: "rat list \<Rightarrow> rat" where
  "calculateAverage numbers =
     (if length numbers = 0 then 0
      else ddiv (foldl (\<lambda>sum n. dadd sum n) 0 numbers) (of_nat (length numbers)))"

definition calculateAverageSpecificity :: "rat Specificity list \<Rightarrow> rat Specificity" where
  "calculateAverageSpecificity specificities =
     (if length specificities = 0 then \<lparr>ids = 0, classes = 0, elements = 0\<rparr>
      else
        let sumIds = foldl (\<lambda>sum s. dadd sum (ids s)) 0 specificities;
            sumClasses = foldl (\<lambda>sum s. dadd sum (classes s)) 0 specificities;
            sumElements = foldl (\<lambda>sum s. dadd sum (elements s)) 0 specificities;
            n = of_nat (length specificities)
        in \<lparr>ids = round2 (ddiv sumIds n),
            classes = round2 (ddiv sumClasses n),
            elements = round2 (ddiv sumElements n)\<rparr>)"

text \<open>Whole-number specificities read as numbers that may carry a fraction.\<close>

definition specificityOfInt :: "int Specificity \<Rightarrow> rat Specificity" where
  "specificityOfInt s =
     \<lparr>ids = of_int (ids s), classes = of_int (classes s), elements = of_int (elements s)\<rparr>"

definition countImportantInRule :: "ParsedRule \<Rightarrow> int" where
  "countImportantInRule rule = int (length (filter important (declarations rule)))"

text \<open>
  \<open>calculateLayoutRiskForDeclarations\<close>: the first loop adds per declaration, the second
  loop multiplies per matching combination. The running score stays a whole number. The
  multipliers are written as the exact fractions 3/2, 13/10 and 6/5: for a whole score
  below \<open>2^40\<close> the double product differs from the exact one by less than 1/10, while
  the exact one is either a tie between two integers, where the double product is not
  below it (the double 1.3 is above 13/10, and 6/5 gives no tie), or at least 1/10 away
  from every tie; so \<open>Math.round\<close> gives the same integer on both.
\<close>

definition layoutRiskStep :: "int \<Rightarrow> ParsedDeclaration \<Rightarrow> int" where
  "layoutRiskStep riskScore decl =
     (if isLayoutProperty (property decl) then
        let r1 = riskScore + 1;
            r2 = (if property decl = ''position'' \<and>
                     decl_value decl \<in> set [''absolute'', ''fixed'']
                  then r1 + 2 else r1);
            r3 = (if startsWith (property decl) ''margin'' \<and>
                     includesChar (decl_value decl) CHR ''-''
                  then r2 + 1 else r2)
        in r3
      else riskScore)"

definition combinationStep :: "string set \<Rightarrow> int \<Rightarrow> RiskyCombination \<Rightarrow> int" where
  "combinationStep presentProperties riskScore combo =
     (if list_all (\<lambda>prop. prop \<in> presentProperties) (properties combo)
      then mathRound (of_int riskScore * riskMultiplier combo)
      else riskScore)"

definition calculateLayoutRiskForDeclarations :: "ParsedDeclaration list \<Rightarrow> int" where
  "calculateLayoutRiskForDeclarations decls =
     (let presentProperties = set (map property decls);
          riskScore = foldl layoutRiskStep 0 decls
      in foldl (combinationStep presentProperties) riskScore RISKY_COMBINATIONS)"

definition calculateFileMetrics :: "ParseResult \<Rightarrow> FileMetrics" where
  "calculateFileMetrics parseResult =
     (let rs = rules parseResult;
          allSelectors = concat (map selectors rs);
          allDepths = map depth allSelectors;
          allSpecificities = map specificity allSelectors
      in \<lparr>fm_file = pr_file parseResult,
          fm_totalRules = int (length rs),
          fm_totalSelectors = int (length allSelectors),
          fm_totalDeclarations =
            foldl (\<lambda>total rule. total + int (length (declarations rule))) 0 rs,
          fm_maxSelectorDepth = foldl (\<lambda>mx d. if d > mx then d else mx) 0 allDepths,
          fm_avgSelectorDepth = round2 (calculateAverage (map of_int allDepths)),
          fm_maxSpecificity = findMaxSpecificity allSpecificities,
          fm_avgSpecificity =
            calculateAverageSpecificity (map specificityOfInt allSpecificities),
          fm_importantCount = foldl (\<lambda>total rule. total + countImportantInRule rule) 0 rs,
          fm_duplicateDeclarationCount = 0,
          fm_layoutRiskScore =
            foldl (\<lambda>total rule.
                     total + calculateLayoutRiskForDeclarations (declarations rule)) 0 rs\<rparr>)"

text \<open>
  \<open>calculateGlobalMetrics\<close>. \<open>Math.max(...xs)\<close> is only reached with a non-empty list,
  where it is the fold of the binary maximum; it spreads one argument per file.
\<close>

definition calculateGlobalMetrics :: "nat \<Rightarrow> FileMetrics list \<Rightarrow> Error + GlobalMetrics" where
  "calculateGlobalMetrics argLimit fms =
     (case fms of
        [] \<Rightarrow>
          Inr \<lparr>totalFiles = 0, totalRules = 0, totalSelectors = 0, totalDeclarations = 0,
           gm_maxSelectorDepth = 0, avgSelectorDepth = 0,
           maxSpecificity = \<lparr>ids = 0, classes = 0, elements = 0\<rparr>,
           avgSpecificity = \<lparr>ids = 0, classes = 0, elements = 0\<rparr>,
           totalImportantCount = 0, totalDuplicateDeclarations = 0,
           overallLayoutRiskScore = 0\<rparr>
      | m # ms \<Rightarrow>
          if \<not> spreadFits argLimit fms then Inl RangeError
          else Inr
          \<lparr>totalFiles = int (length fms),
           totalRules = foldl (\<lambda>sum m. sum + fm_totalRules m) 0 fms,
           totalSelectors = foldl (\<lambda>sum m. sum + fm_totalSelectors m) 0 fms,
           totalDeclarations = foldl (\<lambda>sum m. sum + fm_totalDeclarations m) 0 fms,
           gm_maxSelectorDepth = foldl max (fm_maxSelectorDepth m) (map fm_maxSelectorDepth ms),
           avgSelectorDepth = round2 (calculateAverage (map fm_avgSelectorDepth fms)),
           maxSpecificity = findMaxSpecificity (map fm_maxSpecificity fms),
           avgSpecificity = calculateAverageSpecificity (map fm_avgSpecificity fms),
           totalImportantCount = foldl (\<lambda>sum m. sum + fm_importantCount m) 0 fms,
           totalDuplicateDeclarations =
             foldl (\<lambda>sum m. sum + fm_duplicateDeclarationCount m) 0 fms,
           overallLayoutRiskScore = foldl (\<lambda>sum m. sum + fm_layoutRiskScore m) 0 fms\<rparr>)"

text \<open>
  \<open>xs.slice(0, fin)\<close>: \<open>fin\<close> is first made whole, \<open>NaN\<close> becoming 0. The result is
  the first \<open>fin\<close> elements, for a negative \<open>fin\<close> all but the last \<open>-fin\<close>, everything
  for \<open>Infinity\<close> and nothing for \<open>-Infinity\<close>.
\<close>

definition sliceFromStart :: "'a list \<Rightarrow> JsNumber \<Rightarrow> 'a list" where
  "sliceFromStart xs fin =
     (case fin of
        Num n \<Rightarrow> if n < 0 then take (nat (int (length xs) + n)) xs else take (nat n) xs
      | PosInfinity \<Rightarrow> xs
      | NegInfinity \<Rightarrow> []
      | NaN \<Rightarrow> take 0 xs)"

text \<open>
  \<open>extractTopSelectors\<close>: one entry per selector occurrence, in encounter order; then
  \<open>sort((a, b) => b.score - a.score)\<close>, which is stable, and \<open>slice(0, limit)\<close>.
\<close>

definition topSelectorEntry :: "ParseResult \<Rightarrow> ParsedRule \<Rightarrow> ParsedSelector \<Rightarrow> TopSelector" where
  "topSelectorEntry result rule selector =
     \<lparr>ts_selector = raw selector,
      ts_file = pr_file result,
      ts_line = line rule,
      ts_specificity = specificity selector,
      ts_depth = depth selector,
      score = specificityToScore (specificity selector) * 2 + depth selector * 3\<rparr>"

definition allTopSelectorEntries :: "ParseResult list \<Rightarrow> TopSelector list" where
  "allTopSelectorEntries parseResults =
     concat (map (\<lambda>result.
       concat (map (\<lambda>rule. map (topSelectorEntry result rule) (selectors rule))
                   (rules result)))
       parseResults)"

definition extractTopSelectors :: "ParseResult list \<Rightarrow> JsNumber \<Rightarrow> TopSelector list" where
  "extractTopSelectors parseResults limit =
     sliceFromStart (sort_key (\<lambda>t. - score t) (allTopSelectorEntries parseResults)) limit"

subsection \<open>Duplicate and override detection (metrics.ts)\<close>

text \<open>
  A JavaScript \<open>Map\<close> iterates in insertion order and \<open>set\<close> on an existing key keeps its
  place: an association list. \<open>mapUpsert k f v\<close> is the idiom
  \<open>const e = m.get(k); if (e) { mutate e } else { m.set(k, v) }\<close>.
\<close>

fun mapUpsert :: "'k \<Rightarrow> ('v \<Rightarrow> 'v) \<Rightarrow> 'v \<Rightarrow> ('k \<times> 'v) list \<Rightarrow> ('k \<times> 'v) list" where
  "mapUpsert k f v [] = [(k, v)]"
| "mapUpsert k f v ((k', v') # m) =
     (if k' = k then (k', f v') # m else (k', v') # mapUpsert k f v m)"

text \<open>The three nested \<open>for\<close> loops over results, rules and declarations, in order.\<close>

definition allDeclarations ::
  "ParseResult list \<Rightarrow> (ParseResult \<times> ParsedRule \<times> ParsedDeclaration) list" where
  "allDeclarations parseResults =
     concat (map (\<lambda>result.
       concat (map (\<lambda>rule. map (\<lambda>decl. (result, rule, decl)) (declarations rule))
                   (rules result)))
       parseResults)"

text \<open>\<open>rule.selectors[0]?.raw || ''\<close> and \<open>rule.selectors[0]?.raw\<close>.\<close>

definition firstSelectorRawOrEmpty :: "ParsedRule \<Rightarrow> string" where
  "firstSelectorRawOrEmpty rule = (case selectors rule of [] \<Rightarrow> [] | s # _ \<Rightarrow> raw s)"

definition firstSelectorRaw :: "ParsedRule \<Rightarrow> string option" where
  "firstSelectorRaw rule = (case selectors rule of [] \<Rightarrow> None | s # _ \<Rightarrow> Some (raw s))"

record Location =
  loc_file :: string
  loc_line :: "int option"
  loc_selector :: string

record DuplicateEntry =
  dup_count :: int
  dup_locations :: "Location list"

definition declarationKey :: "ParsedDeclaration \<Rightarrow> string" where
  "declarationKey decl = property decl @ '':'' @ toLowerCase (trim (decl_value decl))"

definition duplicateStep ::
  "(string \<times> DuplicateEntry) list \<Rightarrow> ParseResult \<times> ParsedRule \<times> ParsedDeclaration
     \<Rightarrow> (string \<times> DuplicateEntry) list" where
  "duplicateStep declarationMap rrd =
     (case rrd of (result, rule, decl) \<Rightarrow>
        let location = \<lparr>loc_file = pr_file result, loc_line = line rule,
                         loc_selector = firstSelectorRawOrEmpty rule\<rparr>
        in mapUpsert (declarationKey decl)
             (\<lambda>existing. existing\<lparr>dup_count := dup_count existing + 1,
                                   dup_locations := dup_locations existing @ [location]\<rparr>)
             \<lparr>dup_count = 1, dup_locations = [location]\<rparr>
             declarationMap)"

definition detectDuplicateDeclarations ::
  "ParseResult list \<Rightarrow> int \<Rightarrow> (string \<times> DuplicateEntry) list" where
  "detectDuplicateDeclarations parseResults minCount =
     filter (\<lambda>kv. dup_count (snd kv) \<ge> minCount)
       (foldl duplicateStep [] (allDeclarations parseResults))"

record SelectorInfo =
  si_selector :: string
  si_file :: string
  si_line :: "int option"
  si_specificity :: "int Specificity"

record OverrideEntry =
  op_property :: string
  overrideCount :: int
  op_selectors :: "SelectorInfo list"

definition overrideStep ::
  "(string \<times> OverrideEntry) list \<Rightarrow> ParseResult \<times> ParsedRule \<times> ParsedDeclaration
     \<Rightarrow> (string \<times> OverrideEntry) list" where
  "overrideStep propertyMap rrd =
     (case rrd of (result, rule, decl) \<Rightarrow>
        let selectorInfo =
              \<lparr>si_selector = firstSelectorRawOrEmpty rule,
               si_file = pr_file result,
               si_line = line rule,
               si_specificity =
                 (case selectors rule of
                    [] \<Rightarrow> \<lparr>ids = 0, classes = 0, elements = 0\<rparr>
                  | s # _ \<Rightarrow> specificity s)\<rparr>
        in mapUpsert (property decl)
             (\<lambda>existing. existing\<lparr>overrideCount := overrideCount existing + 1,
                                   op_selectors := op_selectors existing @ [selectorInfo]\<rparr>)
             \<lparr>op_property = property decl, overrideCount = 1, op_selectors = [selectorInfo]\<rparr>
             propertyMap)"

definition detectOverridePressure ::
  "ParseResult list \<Rightarrow> int \<Rightarrow> (string \<times> OverrideEntry) list" where
  "detectOverridePressure parseResults minOverrides =
     filter (\<lambda>kv. overrideCount (snd kv) \<ge> minOverrides)
       (foldl overrideStep [] (allDeclarations parseResults))"

section \<open>Rule engine (rules.ts)\<close>

text \<open>\<open>config.thresholds?.field ?? dflt\<close>.\<close>

definition thresholdOr :: "AnalyzerConfig \<Rightarrow> (Thresholds \<Rightarrow> int Field) \<Rightarrow> int \<Rightarrow> int" where
  "thresholdOr config field dflt =
     (case thresholds config of
        None \<Rightarrow> dflt
      | Some t \<Rightarrow>
          (case field t of Absent \<Rightarrow> dflt | Undefined \<Rightarrow> dflt | Defined v \<Rightarrow> v))"

text \<open>An \<open>Evidence\<close> object literal that names only the file.\<close>

definition evidenceFor :: "string \<Rightarrow> Evidence" where
  "evidenceFor f =
     \<lparr>ev_file = f, ev_selector = None, ev_property = None, ev_value = None,
      ev_line = None, ev_column = None, ev_specificity = None, ev_depth = None,
      ev_count = None\<rparr>"

definition doubleQuote :: string where
  "doubleQuote = [CHR 0x22]"

subsection \<open>Deep selectors\<close>

definition getSeverityForDepth :: "int \<Rightarrow> int \<Rightarrow> Severity" where
  "getSeverityForDepth d maxDepth =
     (let excess = d - maxDepth
      in if excess \<ge> 4 then Critical
         else if excess \<ge> 2 then High
         else Medium)"

definition deepSelectorIssue ::
  "int \<Rightarrow> ParseResult \<Rightarrow> ParsedRule \<Rightarrow> ParsedSelector \<Rightarrow> Issue" where
  "deepSelectorIssue maxDepth result rule selector =
     \<lparr>issue_id = DEEP_SELECTOR,
      severity = getSeverityForDepth (depth selector) maxDepth,
      confidence = dbl (9 / 10),
      title = ''Deeply nested selector (depth: '' @ numToString (depth selector) @ '')'',
      why = ''Selectors with depth > '' @ numToString maxDepth @
            '' are harder to maintain, increase specificity pressure, and create tight coupling to DOM structure. This selector has ''
            @ numToString (depth selector) @ '' levels of nesting.'',
      evidence = (evidenceFor (pr_file result))
        \<lparr>ev_selector := Some (raw selector), ev_line := line rule,
         ev_column := column rule, ev_depth := Some (depth selector)\<rparr>,
      suggestions =
        [\<lparr>action = ''Flatten selector'',
          description = ''Replace with a single class that describes the component/element purpose''\<rparr>,
         \<lparr>action = ''Use BEM naming'',
          description = ''Adopt BEM (Block__Element--Modifier) naming to flatten hierarchy''\<rparr>],
      tags = [TagSpecificity, TagMaintainability]\<rparr>"

definition checkDeepSelectors :: "ParseResult list \<Rightarrow> AnalyzerConfig \<Rightarrow> Issue list" where
  "checkDeepSelectors parseResults config =
     (let maxDepth = thresholdOr config maxSelectorDepth 4
      in concat (map (\<lambda>result.
           concat (map (\<lambda>rule.
             concat (map (\<lambda>selector.
               if depth selector > maxDepth
               then [deepSelectorIssue maxDepth result rule selector]
               else [])
               (selectors rule)))
             (rules result)))
           parseResults))"

subsection \<open>High specificity\<close>

definition getSeverityForSpecificity :: "int Specificity \<Rightarrow> int \<Rightarrow> Severity" where
  "getSeverityForSpecificity spec maxScore' =
     (if ids spec \<ge> 2 then Critical
      else if ids spec \<ge> 1 then High
      else
        let sc = specificityToScore spec
        in if sc > maxScore' * 2 then High
           else if of_int sc > dmul (of_int maxScore') (3 / 2) then Medium
           else Low)"

definition formatSpecificity :: "int Specificity \<Rightarrow> string" where
  "formatSpecificity spec =
     numToString (ids spec) @ '','' @ numToString (classes spec) @ '','' @
     numToString (elements spec)"

definition highSpecificityIssue ::
  "int \<Rightarrow> ParseResult \<Rightarrow> ParsedRule \<Rightarrow> ParsedSelector \<Rightarrow> Issue" where
  "highSpecificityIssue maxScore' result rule selector =
     (let sc = specificityToScore (specificity selector);
          reasons =
            (if hasId selector then [''uses ID selector''] else []) @
            (if sc > maxScore'
             then [''specificity score ('' @ numToString sc @ '') exceeds threshold ('' @
                   numToString maxScore' @ '')'']
             else [])
      in \<lparr>issue_id = HIGH_SPECIFICITY,
          severity = getSeverityForSpecificity (specificity selector) maxScore',
          confidence = dbl (95 / 100),
          title = ''High specificity selector ('' @ formatSpecificity (specificity selector) @ '')'',
          why = ''High specificity selectors '' @ join '' and '' reasons @
                ''. This makes styles harder to override without resorting to !important or equally high specificity, leading to specificity wars.'',
          evidence = (evidenceFor (pr_file result))
            \<lparr>ev_selector := Some (raw selector), ev_line := line rule,
             ev_column := column rule, ev_specificity := Some (specificity selector)\<rparr>,
          suggestions =
            (if hasId selector
             then [\<lparr>action = ''Replace ID with class'',
                    description = ''Convert #id selectors to .class selectors for lower specificity''\<rparr>,
                   \<lparr>action = ''Use data attributes'',
                    description = ''Consider [data-component='' @ doubleQuote @ ''name'' @ doubleQuote @
                                  ''] for JavaScript hooks instead of IDs''\<rparr>]
             else [\<lparr>action = ''Simplify selector'',
                    description = ''Reduce the number of classes/elements in the selector chain''\<rparr>,
                   \<lparr>action = ''Use single class'',
                    description = ''Prefer single-purpose utility classes over complex selector chains''\<rparr>]),
          tags = [TagSpecificity, TagCascade, TagMaintainability]\<rparr>)"

definition checkHighSpecificity :: "ParseResult list \<Rightarrow> AnalyzerConfig \<Rightarrow> Issue list" where
  "checkHighSpecificity parseResults config =
     (let maxScore' = thresholdOr config maxSpecificityScore 40
      in concat (map (\<lambda>result.
           concat (map (\<lambda>rule.
             concat (map (\<lambda>selector.
               if specificityToScore (specificity selector) > maxScore' \<or> hasId selector
               then [highSpecificityIssue maxScore' result rule selector]
               else [])
               (selectors rule)))
             (rules result)))
           parseResults))"

subsection \<open>Important abuse\<close>

definition getSeverityForImportantCount :: "int \<Rightarrow> int \<Rightarrow> Severity" where
  \<comment> \<open>\<open>count / maxPerFile\<close>: a division by zero is \<open>Infinity\<close> for a positive count and
      \<open>NaN\<close> or \<open>-Infinity\<close> otherwise, which fail every comparison below.\<close>
  "getSeverityForImportantCount cnt maxPerFile =
     (if maxPerFile = 0 then (if cnt > 0 then Critical else Low)
      else
        let ratio = ddiv (of_int cnt) (of_int maxPerFile)
        in if ratio \<ge> 4 then Critical
           else if ratio \<ge> 5 / 2 then High
           else if ratio \<ge> 3 / 2 then Medium
           else Low)"

record FileCount =
  fc_count :: int
  fc_rules :: "ParsedRule list"

text \<open>The two nested \<open>for\<close> loops over results and rules, in order.\<close>

definition allRules :: "ParseResult list \<Rightarrow> (ParseResult \<times> ParsedRule) list" where
  "allRules parseResults =
     concat (map (\<lambda>result. map (\<lambda>rule. (result, rule)) (rules result)) parseResults)"

definition fileCountStep ::
  "(string \<times> FileCount) list \<Rightarrow> ParseResult \<times> ParsedRule \<Rightarrow> (string \<times> FileCount) list" where
  "fileCountStep fileCounts rr =
     (case rr of (result, rule) \<Rightarrow>
        let importantDecls = filter important (declarations rule)
        in if length importantDecls > 0
           then mapUpsert (pr_file result)
                  (\<lambda>existing. existing\<lparr>fc_count := fc_count existing + int (length importantDecls),
                                        fc_rules := fc_rules existing @ [rule]\<rparr>)
                  \<lparr>fc_count = int (length importantDecls), fc_rules = [rule]\<rparr>
                  fileCounts
           else fileCounts)"

definition importantFileIssue :: "int \<Rightarrow> string \<times> FileCount \<Rightarrow> Issue" where
  "importantFileIssue maxPerFile kv =
     (let cnt = fc_count (snd kv);
          firstRule = (case fc_rules (snd kv) of [] \<Rightarrow> None | r # _ \<Rightarrow> Some r)
      in \<lparr>issue_id = IMPORTANT_ABUSE,
          severity = getSeverityForImportantCount cnt maxPerFile,
          confidence = dbl (85 / 100),
          title = ''Excessive !important usage ('' @ numToString cnt @ '' occurrences)'',
          why = ''This file contains '' @ numToString cnt @
                '' !important declarations, exceeding the threshold of '' @ numToString maxPerFile @
                ''. Overuse of !important indicates specificity wars and makes styles unpredictable and hard to maintain.'',
          evidence = (evidenceFor (fst kv))
            \<lparr>ev_selector := (case firstRule of None \<Rightarrow> None | Some r \<Rightarrow> firstSelectorRaw r),
             ev_line := (case firstRule of None \<Rightarrow> None | Some r \<Rightarrow> line r),
             ev_count := Some cnt\<rparr>,
          suggestions =
            [\<lparr>action = ''Reduce base specificity'',
              description = ''Lower the specificity of selectors so !important becomes unnecessary''\<rparr>,
             \<lparr>action = ''Use CSS layers'',
              description = ''Consider @layer to establish a predictable cascade order without !important''\<rparr>,
             \<lparr>action = ''Consolidate styles'',
              description = ''Merge competing rules into a single source of truth''\<rparr>],
          tags = [TagCascade, TagOverride, TagMaintainability]\<rparr>)"

definition importantLayoutIssue :: "ParseResult \<Rightarrow> ParsedRule \<Rightarrow> ParsedDeclaration \<Rightarrow> Issue" where
  "importantLayoutIssue result rule decl =
     \<lparr>issue_id = IMPORTANT_ABUSE,
      severity = Medium,
      confidence = dbl (8 / 10),
      title = ''!important on layout property: '' @ property decl,
      why = ''Using !important on layout-affecting properties like '' @ property decl @
            '' can cause unexpected layout behavior and makes responsive adjustments difficult.'',
      evidence = (evidenceFor (pr_file result))
        \<lparr>ev_selector := firstSelectorRaw rule, ev_property := Some (property decl),
         ev_value := Some (decl_value decl), ev_line := line rule\<rparr>,
      suggestions =
        [\<lparr>action = ''Remove !important'',
          description = ''Fix the cascade issue for '' @ property decl @
                        '' instead of forcing with !important''\<rparr>],
      tags = [TagCascade, TagLayoutRisk]\<rparr>"

definition checkImportantAbuse :: "ParseResult list \<Rightarrow> AnalyzerConfig \<Rightarrow> Issue list" where
  "checkImportantAbuse parseResults config =
     (let maxPerFile = thresholdOr config maxImportantPerFile 5;
          fileCounts = foldl fileCountStep [] (allRules parseResults)
      in map (importantFileIssue maxPerFile)
           (filter (\<lambda>kv. fc_count (snd kv) > maxPerFile) fileCounts)
         @
         concat (map (\<lambda>rrd. case rrd of (result, rule, decl) \<Rightarrow>
                   if important decl \<and> isLayoutProperty (property decl)
                   then [importantLayoutIssue result rule decl]
                   else [])
                 (allDeclarations parseResults)))"

subsection \<open>Duplicate declarations\<close>

text \<open>
  The two detectors that index an array with \<open>[0]!\<close> and then read a field of the
  element can raise a \<open>TypeError\<close>; the loop that builds their issues stops at the first
  error.
\<close>

fun collectIssues :: "('a \<Rightarrow> Error + Issue) \<Rightarrow> 'a list \<Rightarrow> Error + Issue list" where
  "collectIssues f [] = Inr []"
| "collectIssues f (x # xs) =
     (case f x of
        Inl e \<Rightarrow> Inl e
      | Inr i \<Rightarrow> (case collectIssues f xs of Inl e \<Rightarrow> Inl e | Inr rest \<Rightarrow> Inr (i # rest)))"

definition getSeverityForDuplicateCount :: "int \<Rightarrow> int \<Rightarrow> Severity" where
  "getSeverityForDuplicateCount cnt minCount =
     (if cnt \<ge> minCount * 5 then High
      else if cnt \<ge> minCount * 3 then Medium
      else Low)"

definition duplicateIssue :: "int \<Rightarrow> string \<times> DuplicateEntry \<Rightarrow> Error + Issue" where
  "duplicateIssue minCount kv =
     (let cnt = dup_count (snd kv);
          parts = split CHR '':'' (fst kv);
          prop = (case parts of [] \<Rightarrow> [] | p # _ \<Rightarrow> p);
          val = join '':'' (tl parts)
      in case dup_locations (snd kv) of
           [] \<Rightarrow> Inl TypeError
         | firstLocation # _ \<Rightarrow>
             Inr \<lparr>issue_id = DUPLICATE_DECLARATIONS,
                  severity = getSeverityForDuplicateCount cnt minCount,
                  confidence = dbl (75 / 100),
                  title = ''Duplicate declaration: '' @ prop @ '' ('' @ numToString cnt @ '' times)'',
                  why = ''The declaration '' @ doubleQuote @ prop @ '': '' @ val @ doubleQuote @
                        '' appears '' @ numToString cnt @
                        '' times across your CSS. This indicates potential for consolidation into a utility class or CSS custom property.'',
                  evidence = (evidenceFor (loc_file firstLocation))
                    \<lparr>ev_property := Some prop, ev_value := Some val,
                     ev_line := loc_line firstLocation,
                     ev_selector := Some (loc_selector firstLocation),
                     ev_count := Some cnt\<rparr>,
                  suggestions =
                    [\<lparr>action = ''Create utility class'',
                      description = ''Extract to a reusable utility class like .'' @
                        replaceOutside (\<lambda>c. isLower c \<or> isUpper c) prop @ ''-'' @
                        replaceOutside (\<lambda>c. isLower c \<or> isUpper c \<or> isDigit c) val\<rparr>,
                     \<lparr>action = ''Use CSS custom property'',
                      description = ''Define --'' @ prop @ '': '' @ val @
                        '' and reference with var(--'' @ prop @ '')''\<rparr>],
                  tags = [TagDuplication, TagMaintainability]\<rparr>)"

definition checkDuplicateDeclarations ::
  "ParseResult list \<Rightarrow> AnalyzerConfig \<Rightarrow> Error + Issue list" where
  "checkDuplicateDeclarations parseResults config =
     (let minCount = thresholdOr config maxDuplicateDeclarations 3
      in collectIssues (duplicateIssue minCount)
           (detectDuplicateDeclarations parseResults minCount))"

subsection \<open>Layout risk hotspot\<close>

definition getSeverityForLayoutRisk :: "int \<Rightarrow> Severity" where
  "getSeverityForLayoutRisk riskScore =
     (if riskScore \<ge> 15 then High
      else if riskScore \<ge> 10 then Medium
      else Low)"

definition layoutRiskIssue :: "int \<Rightarrow> ParseResult \<Rightarrow> ParsedRule \<Rightarrow> Issue" where
  "layoutRiskIssue riskScore result rule =
     (let layoutProps =
            map property (filter (\<lambda>d. isLayoutProperty (property d)) (declarations rule));
          hasPositioning =
            list_ex (\<lambda>d. property d = ''position'' \<and>
                           decl_value d \<in> set [''absolute'', ''fixed''])
                    (declarations rule)
      in \<lparr>issue_id = LAYOUT_RISK_HOTSPOT,
          severity = getSeverityForLayoutRisk riskScore,
          confidence = dbl (7 / 10),
          title = ''Layout risk hotspot (risk score: '' @ numToString riskScore @ '')'',
          why = ''This rule contains '' @ numToString (int (length layoutProps)) @
                '' layout-affecting properties'' @
                (if hasPositioning then '' including absolute/fixed positioning'' else []) @
                ''. Complex layout rules are fragile and can cause unexpected behavior across different viewport sizes.'',
          evidence = (evidenceFor (pr_file result))
            \<lparr>ev_selector := firstSelectorRaw rule, ev_line := line rule,
             ev_count := Some (int (length layoutProps))\<rparr>,
          suggestions =
            (if hasPositioning
             then [\<lparr>action = ''Use relative positioning'',
                    description = ''Consider using flexbox/grid with relative positioning instead of absolute''\<rparr>,
                   \<lparr>action = ''Isolate positioning'',
                    description = ''Split positioning rules from other layout properties for better maintainability''\<rparr>]
             else [\<lparr>action = ''Simplify layout'',
                    description = ''Consider using modern layout techniques (flexbox/grid) to reduce property count''\<rparr>,
                   \<lparr>action = ''Component isolation'',
                    description = ''Ensure layout rules are scoped to specific components''\<rparr>]),
          tags = [TagLayoutRisk, TagMaintainability]\<rparr>)"

definition checkLayoutRiskHotspot :: "ParseResult list \<Rightarrow> AnalyzerConfig \<Rightarrow> Issue list" where
  "checkLayoutRiskHotspot parseResults config =
     (let riskThreshold = 5
      in concat (map (\<lambda>rr. case rr of (result, rule) \<Rightarrow>
                   let riskScore = calculateLayoutRiskForDeclarations (declarations rule)
                   in if riskScore \<ge> riskThreshold
                      then [layoutRiskIssue riskScore result rule]
                      else [])
                 (allRules parseResults)))"

subsection \<open>Override pressure\<close>

definition getSeverityForOverridePressure :: "int \<Rightarrow> int \<Rightarrow> Severity" where
  "getSeverityForOverridePressure cnt variance =
     (if cnt \<ge> 15 \<and> variance \<ge> 50 then High
      else if cnt \<ge> 10 \<or> variance \<ge> 30 then Medium
      else Low)"

text \<open>
  \<open>Math.min(...scores)\<close> and \<open>Math.max(...scores)\<close> spread one argument per defining
  selector; over a non-empty array they are folds of the binary operations. With no
  selector at all, \<open>firstSelector.file\<close> raises.
\<close>

definition overrideIssue :: "nat \<Rightarrow> string \<times> OverrideEntry \<Rightarrow> Error + Issue" where
  "overrideIssue argLimit kv =
     (if \<not> spreadFits argLimit (op_selectors (snd kv)) then Inl RangeError
      else case op_selectors (snd kv) of
        [] \<Rightarrow> Inl TypeError
      | firstSelector # others \<Rightarrow>
          let prop = fst kv;
              cnt = overrideCount (snd kv);
              firstScore = specificityToScore (si_specificity firstSelector);
              scores = map (\<lambda>s. specificityToScore (si_specificity s)) others;
              minScore = foldl min firstScore scores;
              maxScore' = foldl max firstScore scores;
              variance = maxScore' - minScore
          in Inr \<lparr>issue_id = OVERRIDE_PRESSURE,
                  severity = getSeverityForOverridePressure cnt variance,
                  confidence = dbl (7 / 10),
                  title = ''High override pressure: '' @ prop @ '' ('' @ numToString cnt @
                          '' definitions)'',
                  why = ''The property '' @ doubleQuote @ prop @ doubleQuote @ '' is defined '' @
                        numToString cnt @
                        '' times across different selectors with specificity ranging from '' @
                        numToString minScore @ '' to '' @ numToString maxScore' @
                        ''. This suggests competing styles and potential cascade conflicts.'',
                  evidence = (evidenceFor (si_file firstSelector))
                    \<lparr>ev_property := Some prop,
                     ev_selector := Some (si_selector firstSelector),
                     ev_line := si_line firstSelector,
                     ev_count := Some cnt\<rparr>,
                  suggestions =
                    [\<lparr>action = ''Consolidate base styles'',
                      description = ''Define '' @ prop @
                        '' once in a base rule and use modifiers for variations''\<rparr>,
                     \<lparr>action = ''Review cascade order'',
                      description = ''Ensure styles follow a logical cascade from general to specific''\<rparr>,
                     \<lparr>action = ''Use CSS custom properties'',
                      description = ''Consider using --'' @ prop @
                        '' custom property that can be overridden at component level''\<rparr>],
                  tags = [TagCascade, TagOverride, TagMaintainability]\<rparr>)"

definition checkOverridePressure ::
  "nat \<Rightarrow> ParseResult list \<Rightarrow> AnalyzerConfig \<Rightarrow> Error + Issue list" where
  "checkOverridePressure argLimit parseResults config =
     (let minOverrides = 5
      in collectIssues (overrideIssue argLimit)
           (detectOverridePressure parseResults minOverrides))"

subsection \<open>Missing layers\<close>

text \<open>The three counters of the loop over the parse results.\<close>

record LayerTotals =
  lt_totalRules :: int
  lt_totalImportant :: int
  lt_filesWithManyRules :: int

definition layerTotalsStep :: "LayerTotals \<Rightarrow> ParseResult \<Rightarrow> LayerTotals" where
  "layerTotalsStep acc result =
     (let totalRules' = lt_totalRules acc + int (length (rules result));
          totalImportant' =
            foldl (\<lambda>total rule. total + int (length (filter important (declarations rule))))
              (lt_totalImportant acc) (rules result);
          filesWithManyRules' =
            (if int (length (rules result)) \<ge> 20
             then lt_filesWithManyRules acc + 1 else lt_filesWithManyRules acc)
      in \<lparr>lt_totalRules = totalRules', lt_totalImportant = totalImportant',
          lt_filesWithManyRules = filesWithManyRules'\<rparr>)"

definition getSeverityForMissingLayers :: "int \<Rightarrow> int \<Rightarrow> Severity" where
  "getSeverityForMissingLayers totalRules' totalImportant =
     (if totalRules' \<ge> 200 \<or> totalImportant \<ge> 20 then Medium
      else if totalRules' \<ge> 100 \<or> totalImportant \<ge> 10 then Low
      else Low)"

definition missingLayersIssue :: "ParseResult list \<Rightarrow> int \<Rightarrow> int \<Rightarrow> Issue" where
  "missingLayersIssue parseResults totalRules' totalImportant =
     (let firstFile = (case parseResults of [] \<Rightarrow> ''unknown'' | r # _ \<Rightarrow> pr_file r)
      in \<lparr>issue_id = MISSING_LAYERS,
          severity = getSeverityForMissingLayers totalRules' totalImportant,
          confidence = dbl (7 / 10),
          title = ''CSS @layer not used for cascade management'',
          why = ''Your CSS has '' @ numToString totalRules' @ '' rules'' @
                (if totalImportant > 0
                 then '' and '' @ numToString totalImportant @ '' !important declarations''
                 else []) @
                '', but doesn't use @layer for cascade control. CSS Cascade Layers (@layer) provide a cleaner way to manage style precedence without specificity battles or !important.'',
          evidence = (evidenceFor firstFile)\<lparr>ev_count := Some totalRules'\<rparr>,
          suggestions =
            [\<lparr>action = ''Organize styles into layers'',
              description = ''Structure CSS with @layer reset, base, components, utilities for predictable cascade order''\<rparr>,
             \<lparr>action = ''Define layer order upfront'',
              description = ''Use @layer reset, base, components, utilities; at the top of your CSS to establish precedence''\<rparr>,
             \<lparr>action = ''Replace !important with layers'',
              description = ''Styles in later layers automatically override earlier layers without needing !important''\<rparr>],
          tags = [TagCascade, TagLayer, TagMaintainability]\<rparr>)"

definition checkMissingLayers :: "ParseResult list \<Rightarrow> AnalyzerConfig \<Rightarrow> Issue list" where
  "checkMissingLayers parseResults config =
     (let anyUsesLayers = list_ex usesLayers parseResults;
          totals = foldl layerTotalsStep
                     \<lparr>lt_totalRules = 0, lt_totalImportant = 0, lt_filesWithManyRules = 0\<rparr>
                     parseResults
      in if \<not> anyUsesLayers \<and>
            (lt_totalRules totals \<ge> 50 \<or> lt_totalImportant totals \<ge> 5 \<or>
             lt_filesWithManyRules totals \<ge> 3)
         then [missingLayersIssue parseResults (lt_totalRules totals) (lt_totalImportant totals)]
         else [])"

subsection \<open>Running the rules\<close>

text \<open>\<open>const rules = config.rules ?? {}\<close> and the test \<open>rules.flag !== false\<close>.\<close>

definition ruleEnabled :: "AnalyzerConfig \<Rightarrow> (RuleToggles \<Rightarrow> bool Field) \<Rightarrow> bool" where
  "ruleEnabled config flag =
     (case cfg_rules config of None \<Rightarrow> True | Some r \<Rightarrow> flag r \<noteq> Defined False)"

definition severityOrder :: "Severity \<Rightarrow> nat" where
  "severityOrder s = (case s of Critical \<Rightarrow> 0 | High \<Rightarrow> 1 | Medium \<Rightarrow> 2 | Low \<Rightarrow> 3)"

text \<open>
  \<open>issues.push(...found)\<close> spreads one argument per issue found.
\<close>

definition pushAll :: "nat \<Rightarrow> Issue list \<Rightarrow> Issue list \<Rightarrow> Error + Issue list" where
  "pushAll argLimit collected found =
     (if spreadFits argLimit found then Inr (collected @ found) else Inl RangeError)"

definition runAllRules ::
  "nat \<Rightarrow> ParseResult list \<Rightarrow> AnalyzerConfig \<Rightarrow> Error + Issue list" where
  "runAllRules argLimit parseResults config =
     andThen (if ruleEnabled config deepSelectors
              then pushAll argLimit [] (checkDeepSelectors parseResults config)
              else Inr []) (\<lambda>i1.
     andThen (if ruleEnabled config highSpecificity
              then pushAll argLimit i1 (checkHighSpecificity parseResults config)
              else Inr i1) (\<lambda>i2.
     andThen (if ruleEnabled config importantAbuse
              then pushAll argLimit i2 (checkImportantAbuse parseResults config)
              else Inr i2) (\<lambda>i3.
     andThen (if ruleEnabled config duplicateDeclarations
              then andThen (checkDuplicateDeclarations parseResults config) (pushAll argLimit i3)
              else Inr i3) (\<lambda>i4.
     andThen (if ruleEnabled config layoutRiskHotspot
              then pushAll argLimit i4 (checkLayoutRiskHotspot parseResults config)
              else Inr i4) (\<lambda>i5.
     andThen (if ruleEnabled config overridePressure
              then andThen (checkOverridePressure argLimit parseResults config)
                     (pushAll argLimit i5)
              else Inr i5) (\<lambda>i6.
     andThen (if ruleEnabled config missingLayers
              then pushAll argLimit i6 (checkMissingLayers parseResults config)
              else Inr i6) (\<lambda>i7.
     Inr (sort_key (\<lambda>i. severityOrder (severity i)) i7))))))))"

section \<open>Scoring (scoring.ts)\<close>

definition calculateOverallScore :: "CategoryScores \<Rightarrow> int" where
  "calculateOverallScore cs =
     (let weightedSum =
            dadd (dadd (dadd (dmul (cs_specificity cs) (dbl (3 / 10)))
                             (dmul (cascade cs) (dbl (25 / 100))))
                       (dmul (duplication cs) (dbl (2 / 10))))
                 (dmul (layoutRisk cs) (dbl (25 / 100)))
      in mathRound (min 100 (max 0 weightedSum)))"

definition calculateSpecificityScore :: "GlobalMetrics \<Rightarrow> Issue list \<Rightarrow> rat" where
  "calculateSpecificityScore metrics iss =
     (let avgSpecScore = specificityToScoreDouble (avgSpecificity metrics);
          s1 = dadd 0 (min 30 avgSpecScore);
          maxSpecScore = specificityToScore (maxSpecificity metrics);
          s2 = (if maxSpecScore > 100 then dadd s1 20
                else if maxSpecScore > 50 then dadd s1 10 else s1);
          s3 = (if gm_maxSelectorDepth metrics > 6 then dadd s2 20
                else if gm_maxSelectorDepth metrics > 4 then dadd s2 10 else s2);
          specificityIssues =
            filter (\<lambda>i. issue_id i = HIGH_SPECIFICITY \<or> issue_id i = DEEP_SELECTOR) iss;
          s4 = dadd s3 (of_nat (length specificityIssues) * 2)
      in min 100 s4)"

definition calculateCascadeScore :: "GlobalMetrics \<Rightarrow> Issue list \<Rightarrow> rat" where
  "calculateCascadeScore metrics iss =
     (let importantRatio =
            ddiv (of_int (totalImportantCount metrics))
                 (of_int (max 1 (totalDeclarations metrics)));
          s1 = dadd 0 (min 40 (dmul importantRatio 500));
          cascadeIssues =
            filter (\<lambda>i. issue_id i = IMPORTANT_ABUSE \<or> issue_id i = OVERRIDE_PRESSURE) iss;
          s2 = foldl (\<lambda>sc issue.
                        if severity issue = Critical then dadd sc 15
                        else if severity issue = High then dadd sc 10
                        else if severity issue = Medium then dadd sc 5
                        else dadd sc 2)
                     s1 cascadeIssues
      in min 100 s2)"

definition calculateDuplicationScore :: "GlobalMetrics \<Rightarrow> Issue list \<Rightarrow> rat" where
  "calculateDuplicationScore metrics iss =
     (let duplicateRatio =
            ddiv (of_int (totalDuplicateDeclarations metrics))
                 (of_int (max 1 (totalDeclarations metrics)));
          s1 = dadd 0 (min 40 (dmul duplicateRatio 200));
          duplicationIssues = filter (\<lambda>i. issue_id i = DUPLICATE_DECLARATIONS) iss;
          s2 = foldl (\<lambda>sc issue.
                        let cnt = (case ev_count (evidence issue) of None \<Rightarrow> 0 | Some c \<Rightarrow> c)
                        in dadd sc (min 10 (ddiv (of_int cnt) 2)))
                     s1 duplicationIssues
      in min 100 s2)"

definition calculateLayoutRiskScore :: "GlobalMetrics \<Rightarrow> Issue list \<Rightarrow> rat" where
  "calculateLayoutRiskScore metrics iss =
     (let ruleCount = max 1 (totalRules metrics);
          avgLayoutRisk = ddiv (of_int (overallLayoutRiskScore metrics)) (of_int ruleCount);
          s1 = dadd 0 (min 40 (dmul avgLayoutRisk 10));
          layoutIssues = filter (\<lambda>i. issue_id i = LAYOUT_RISK_HOTSPOT) iss;
          s2 = foldl (\<lambda>sc issue.
                        if severity issue = High then dadd sc 15
                        else if severity issue = Medium then dadd sc 8
                        else dadd sc 3)
                     s1 layoutIssues
      in min 100 s2)"

definition calculateCategoryScores :: "GlobalMetrics \<Rightarrow> Issue list \<Rightarrow> CategoryScores" where
  "calculateCategoryScores metrics iss =
     \<lparr>cs_specificity = calculateSpecificityScore metrics iss,
      cascade = calculateCascadeScore metrics iss,
      duplication = calculateDuplicationScore metrics iss,
      layoutRisk = calculateLayoutRiskScore metrics iss\<rparr>"

definition scoreToGrade :: "int \<Rightarrow> Grade" where
  "scoreToGrade sc =
     (if sc \<le> 20 then GradeA
      else if sc \<le> 40 then GradeB
      else if sc \<le> 60 then GradeC
      else if sc \<le> 80 then GradeD
      else GradeF)"

definition countIssuesBySeverity :: "Issue list \<Rightarrow> SeverityCounts" where
  "countIssuesBySeverity iss =
     foldl (\<lambda>counts issue.
              case severity issue of
                Critical \<Rightarrow> counts\<lparr>critical := critical counts + 1\<rparr>
              | High \<Rightarrow> counts\<lparr>high := high counts + 1\<rparr>
              | Medium \<Rightarrow> counts\<lparr>medium := medium counts + 1\<rparr>
              | Low \<Rightarrow> counts\<lparr>low := low counts + 1\<rparr>)
           \<lparr>critical = 0, high = 0, medium = 0, low = 0\<rparr> iss"

definition generateSummary :: "GlobalMetrics \<Rightarrow> Issue list \<Rightarrow> Summary" where
  "generateSummary metrics iss =
     (let categoryScores' = calculateCategoryScores metrics iss;
          overallScore' = calculateOverallScore categoryScores'
      in \<lparr>overallScore = overallScore',
          categoryScores = categoryScores',
          grade = scoreToGrade overallScore',
          totalIssues = int (length iss),
          issuesBySeverity = countIssuesBySeverity iss\<rparr>)"

definition priorityOrder :: "Priority \<Rightarrow> nat" where
  "priorityOrder p = (case p of PriorityHigh \<Rightarrow> 0 | PriorityMedium \<Rightarrow> 1 | PriorityLow \<Rightarrow> 2)"

definition issuesOfType :: "IssueId \<Rightarrow> Issue list \<Rightarrow> Issue list" where
  "issuesOfType t iss = filter (\<lambda>i. issue_id i = t) iss"

definition generateRecommendations :: "Issue list \<Rightarrow> Recommendation list" where
  "generateRecommendations iss =
     (let highSpec = issuesOfType HIGH_SPECIFICITY iss;
          deep = issuesOfType DEEP_SELECTOR iss;
          imp = issuesOfType IMPORTANT_ABUSE iss;
          ovr = issuesOfType OVERRIDE_PRESSURE iss;
          dup = issuesOfType DUPLICATE_DECLARATIONS iss;
          lay = issuesOfType LAYOUT_RISK_HOTSPOT iss
      in sort_key (\<lambda>r. priorityOrder (priority r))
           ((if length highSpec > 0 \<or> length deep > 0
             then [\<lparr>category = ''Specificity'',
                    rec_title = ''Reduce selector complexity'',
                    rec_description = ''Your CSS has high specificity selectors or deeply nested selectors. Consider adopting a flat, single-class approach like BEM or utility-first CSS.'',
                    priority = (if length highSpec > 5 then PriorityHigh else PriorityMedium),
                    relatedIssueIds = [HIGH_SPECIFICITY, DEEP_SELECTOR]\<rparr>]
             else []) @
            (if length imp > 0
             then [\<lparr>category = ''Cascade'',
                    rec_title = ''Reduce !important usage'',
                    rec_description = ''Excessive !important declarations indicate specificity wars. Establish a clear cascade hierarchy using CSS layers or lower-specificity selectors.'',
                    priority = PriorityHigh,
                    relatedIssueIds = [IMPORTANT_ABUSE]\<rparr>]
             else []) @
            (if length ovr > 0
             then [\<lparr>category = ''Cascade'',
                    rec_title = ''Consolidate override patterns'',
                    rec_description = ''Some properties are defined many times across different selectors. Define base styles once and use modifiers for variations.'',
                    priority = PriorityMedium,
                    relatedIssueIds = [OVERRIDE_PRESSURE]\<rparr>]
             else []) @
            (if length dup > 0
             then [\<lparr>category = ''Duplication'',
                    rec_title = ''Extract repeated declarations'',
                    rec_description = ''Multiple declarations are repeated throughout your CSS. Extract them into utility classes or CSS custom properties for better maintainability.'',
                    priority = (if length dup > 10 then PriorityHigh else PriorityMedium),
                    relatedIssueIds = [DUPLICATE_DECLARATIONS]\<rparr>]
             else []) @
            (if length lay > 0
             then [\<lparr>category = ''Layout'',
                    rec_title = ''Simplify layout rules'',
                    rec_description = ''Some rules contain many layout-affecting properties. Consider using modern layout techniques (flexbox/grid) and isolating positioning from other layout concerns.'',
                    priority = (if length lay > 5 then PriorityHigh else PriorityLow),
                    relatedIssueIds = [LAYOUT_RISK_HOTSPOT]\<rparr>]
             else [])))"

section \<open>Analyzer (analyzer.ts)\<close>

text \<open>
  \<open>mergeConfig\<close>: \<open>??\<close> takes the default for a field that is absent, \<open>undefined\<close> or
  \<open>null\<close>; the object spread \<open>{...defaults, ...user}\<close> copies every own property of
  \<open>user\<close> over the default, whatever it holds, and keeps the default of a property that
  \<open>user\<close> does not have. The local \<open>defaultConfig.rules\<close> literal lists six toggles.
\<close>

definition orElse :: "'a Field \<Rightarrow> 'a Field \<Rightarrow> 'a Field" where
  "orElse user dflt = (case user of Absent \<Rightarrow> dflt | Undefined \<Rightarrow> Undefined | Defined v \<Rightarrow> Defined v)"

definition defaultThresholds :: Thresholds where
  "defaultThresholds =
     \<lparr>maxSelectorDepth = Defined 4, maxSpecificityScore = Defined 40,
      maxImportantPerFile = Defined 5, maxDuplicateDeclarations = Defined 3\<rparr>"

definition defaultRules :: RuleToggles where
  "defaultRules =
     \<lparr>deepSelectors = Defined True, highSpecificity = Defined True,
      importantAbuse = Defined True, duplicateDeclarations = Defined True,
      layoutRiskHotspot = Defined True, overridePressure = Defined True,
      missingLayers = Absent\<rparr>"

definition spreadThresholds :: "Thresholds \<Rightarrow> Thresholds option \<Rightarrow> Thresholds" where
  "spreadThresholds dflt user =
     (case user of
        None \<Rightarrow> dflt
      | Some u \<Rightarrow>
          \<lparr>maxSelectorDepth = orElse (maxSelectorDepth u) (maxSelectorDepth dflt),
           maxSpecificityScore = orElse (maxSpecificityScore u) (maxSpecificityScore dflt),
           maxImportantPerFile = orElse (maxImportantPerFile u) (maxImportantPerFile dflt),
           maxDuplicateDeclarations =
             orElse (maxDuplicateDeclarations u) (maxDuplicateDeclarations dflt)\<rparr>)"

definition spreadRules :: "RuleToggles \<Rightarrow> RuleToggles option \<Rightarrow> RuleToggles" where
  "spreadRules dflt user =
     (case user of
        None \<Rightarrow> dflt
      | Some u \<Rightarrow>
          \<lparr>deepSelectors = orElse (deepSelectors u) (deepSelectors dflt),
           highSpecificity = orElse (highSpecificity u) (highSpecificity dflt),
           importantAbuse = orElse (importantAbuse u) (importantAbuse dflt),
           duplicateDeclarations = orElse (duplicateDeclarations u) (duplicateDeclarations dflt),
           layoutRiskHotspot = orElse (layoutRiskHotspot u) (layoutRiskHotspot dflt),
           overridePressure = orElse (overridePressure u) (overridePressure dflt),
           missingLayers = orElse (missingLayers u) (missingLayers dflt)\<rparr>)"

definition emptyConfig :: AnalyzerConfig where
  "emptyConfig =
     \<lparr>cfg_include = None, cfg_exclude = None, thresholds = None, ignorePatterns = None,
      maxScore = None, cfg_rules = None\<rparr>"

definition mergeConfig :: "AnalyzerConfig \<Rightarrow> RequiredConfig" where
  "mergeConfig userConfig =
     \<lparr>req_include = (case cfg_include userConfig of Some v \<Rightarrow> v | None \<Rightarrow> [''**/*.css'']),
      req_exclude = (case cfg_exclude userConfig of Some v \<Rightarrow> v
                     | None \<Rightarrow> [''**/node_modules/**'', ''**/dist/**'', ''**/vendor/**'']),
      req_thresholds = spreadThresholds defaultThresholds (thresholds userConfig),
      req_ignorePatterns = (case ignorePatterns userConfig of Some v \<Rightarrow> v | None \<Rightarrow> []),
      req_maxScore = (case maxScore userConfig of Some v \<Rightarrow> v | None \<Rightarrow> Num 100),
      req_rules = spreadRules defaultRules (cfg_rules userConfig)\<rparr>"

text \<open>
  \<open>generateReport\<close>. \<open>new Date().toISOString()\<close> reads the wall clock; the reading is the
  argument \<open>now\<close>. The clock and the argument limit of the engine are all that the
  function takes from its environment: the modules of the core hold constants only, and
  the functions called sort and fill arrays and maps of their own, never their arguments.
\<close>

definition generateReport ::
  "nat \<Rightarrow> string \<Rightarrow> ParseResult list \<Rightarrow> RequiredConfig \<Rightarrow> Error + Report" where
  "generateReport argLimit now parseResults config =
     (let fileMetrics' = map calculateFileMetrics parseResults
      in andThen (calculateGlobalMetrics argLimit fileMetrics') (\<lambda>globalMetrics'.
         andThen (runAllRules argLimit parseResults (asAnalyzerConfig config)) (\<lambda>issues'.
           let topSelectors' = extractTopSelectors parseResults (Num 10);
               summary' = generateSummary globalMetrics' issues';
               recommendations' = generateRecommendations issues'
           in Inr \<lparr>version = ''0.1.0'',
                   timestamp = now,
                   summary = summary',
                   globalMetrics = globalMetrics',
                   fileMetrics = fileMetrics',
                   issues = issues',
                   topSelectors = topSelectors',
                   recommendations = recommendations'\<rparr>)))"

record ThresholdCheck =
  passed :: bool
  reasons :: "string list"


section \<open>Reference definitions for the claims\<close>

text \<open>
  The definitions of this section are not translations of code. They say, in the words of
  the specification, what the code above is compared with.
\<close>

subsection \<open>Specificity order\<close>

text \<open>
  The lexicographic order on (ids, classes, elements), written out: \<open>a\<close> is greater
  than \<open>b\<close> when it has more ids, or as many ids and more classes, or as many ids and
  classes and more elements.
\<close>

definition specificityGreater :: "('n::linorder) Specificity \<Rightarrow> 'n Specificity \<Rightarrow> bool" where
  "specificityGreater a b =
     (ids a > ids b \<or>
      (ids a = ids b \<and> classes a > classes b) \<or>
      (ids a = ids b \<and> classes a = classes b \<and> elements a > elements b))"

subsection \<open>Selectors\<close>

text \<open>A parser of which only one input is known.\<close>

definition parsesTo :: "string \<Rightarrow> Node \<Rightarrow> string \<Rightarrow> Node option" where
  "parsesTo s ast = (\<lambda>x. if x = s then Some ast else None)"

text \<open>All selectors of the parse results, in encounter order.\<close>

definition allSelectors :: "ParseResult list \<Rightarrow> ParsedSelector list" where
  "allSelectors parseResults =
     concat (map (\<lambda>result. concat (map selectors (rules result))) parseResults)"

text \<open>A file with one rule that has one selector.\<close>

definition singleSelectorFile :: "string \<Rightarrow> ParsedRule \<Rightarrow> ParsedSelector \<Rightarrow> ParseResult" where
  "singleSelectorFile f rule s =
     \<lparr>pr_file = f, rules = [rule\<lparr>selectors := [s]\<rparr>], errors = [], layers = [],
      usesLayers = False\<rparr>"

text \<open>Severity by excess: critical from 4, high from 2, medium otherwise.\<close>

definition deepSeverity :: "int \<Rightarrow> Severity" where
  "deepSeverity excess = (if excess \<ge> 4 then Critical else if excess \<ge> 2 then High else Medium)"

text \<open>
  What the deep-selector rule is to report under the threshold \<open>m\<close>: for each selector
  deeper than \<open>m\<close>, in encounter order, the issue id, the severity of the excess, the
  selector text and its depth.
\<close>

definition deepSelectorFindings ::
  "int \<Rightarrow> ParseResult list \<Rightarrow> (IssueId \<times> Severity \<times> string option \<times> int option) list" where
  "deepSelectorFindings m prs =
     map (\<lambda>s. (DEEP_SELECTOR, deepSeverity (depth s - m), Some (raw s), Some (depth s)))
       (filter (\<lambda>s. depth s > m) (allSelectors prs))"

definition plainRule :: ParsedRule where
  "plainRule =
     \<lparr>selectors = [], declarations = [], rule_file = ''a.css'', line = None, column = None,
      layer = None\<rparr>"

definition selectorOfDepth :: "int \<Rightarrow> ParsedSelector" where
  "selectorOfDepth d =
     \<lparr>raw = ''.a .b'', depth = d, specificity = \<lparr>ids = 0, classes = d, elements = 0\<rparr>,
      hasId = False, hasPseudoClass = False, hasPseudoElement = False, hasAttribute = False\<rparr>"

subsection \<open>Layout risk\<close>

text \<open>
  The additive pass: one point per declaration of a layout property, two more when it is
  \<open>position\<close> with value \<open>absolute\<close> or \<open>fixed\<close>, one more when its name starts with
  \<open>margin\<close> and its value contains a dash.
\<close>

definition additivePoints :: "ParsedDeclaration \<Rightarrow> int" where
  "additivePoints d =
     (if property d \<in> set LAYOUT_PROPERTIES
      then 1 + (if property d = ''position'' \<and>
                   (decl_value d = ''absolute'' \<or> decl_value d = ''fixed'')
                then 2 else 0)
             + (if startsWith (property d) ''margin'' \<and> CHR ''-'' \<in> set (decl_value d)
                then 1 else 0)
      else 0)"

definition additivePass :: "ParsedDeclaration list \<Rightarrow> int" where
  "additivePass decls = sum_list (map additivePoints decls)"

text \<open>
  The combinations, in their order: each one whose properties are all present multiplies
  the running value and rounds it to the nearest integer.
\<close>

fun applyCombinations :: "string set \<Rightarrow> RiskyCombination list \<Rightarrow> int \<Rightarrow> int" where
  "applyCombinations present [] running = running"
| "applyCombinations present (combo # combos) running =
     applyCombinations present combos
       (if set (properties combo) \<subseteq> present
        then \<lfloor>of_int running * riskMultiplier combo + 1 / 2\<rfloor>
        else running)"

definition layoutRiskSpec :: "ParsedDeclaration list \<Rightarrow> int" where
  "layoutRiskSpec decls =
     applyCombinations (property ` set decls) RISKY_COMBINATIONS (additivePass decls)"

subsection \<open>Missing layers\<close>

definition totalRulesOf :: "ParseResult list \<Rightarrow> int" where
  "totalRulesOf prs = sum_list (map (\<lambda>r. int (length (rules r))) prs)"

definition importantCountOf :: "ParseResult \<Rightarrow> int" where
  "importantCountOf r = int (length (filter important (concat (map declarations (rules r)))))"

definition totalImportantOf :: "ParseResult list \<Rightarrow> int" where
  "totalImportantOf prs = sum_list (map importantCountOf prs)"

definition filesWithManyRulesOf :: "ParseResult list \<Rightarrow> int" where
  "filesWithManyRulesOf prs = int (length (filter (\<lambda>r. length (rules r) \<ge> 20) prs))"

definition fiftyRuleFile :: "bool \<Rightarrow> ParseResult" where
  "fiftyRuleFile layered =
     \<lparr>pr_file = ''a.css'', rules = replicate 50 plainRule, errors = [], layers = [],
      usesLayers = layered\<rparr>"

subsection \<open>Reports\<close>







definition zeroMetrics :: GlobalMetrics where
  "zeroMetrics =
     \<lparr>totalFiles = 0, totalRules = 0, totalSelectors = 0, totalDeclarations = 0,
      gm_maxSelectorDepth = 0, avgSelectorDepth = 0,
      maxSpecificity = \<lparr>ids = 0, classes = 0, elements = 0\<rparr>,
      avgSpecificity = \<lparr>ids = 0, classes = 0, elements = 0\<rparr>,
      totalImportantCount = 0, totalDuplicateDeclarations = 0,
      overallLayoutRiskScore = 0\<rparr>"



section \<open>Specificity comparison\<close>

lemma compareSpecificity_pos_iff:
  "compareSpecificity a b > 0 \<longleftrightarrow> specificityGreater a b"
  by (auto simp: compareSpecificity_def specificityGreater_def)

lemma compareSpecificity_zero_iff:
  "compareSpecificity a b = 0 \<longleftrightarrow>
     ids a = ids b \<and> classes a = classes b \<and> elements a = elements b"
  by (auto simp: compareSpecificity_def)

lemma specificityGreater_trans:
  "specificityGreater a b \<Longrightarrow> specificityGreater b c \<Longrightarrow> specificityGreater a c"
  unfolding specificityGreater_def by auto

lemma foldl_max_specificity:
  "foldl (\<lambda>mx current. if compareSpecificity current mx > 0 then current else mx) m rest
       \<in> set (m # rest) \<and>
   (\<forall>x \<in> set (m # rest). \<not> specificityGreater x
       (foldl (\<lambda>mx current. if compareSpecificity current mx > 0 then current else mx) m rest))"
proof (induction rest arbitrary: m)
  case Nil
  show ?case by (simp add: specificityGreater_def)
next
  case (Cons c rest)
  let ?pick = "\<lambda>mx current. if compareSpecificity current mx > 0 then current else mx"
  let ?m' = "?pick m c"
  have IH: "foldl ?pick ?m' rest \<in> set (?m' # rest) \<and>
            (\<forall>x \<in> set (?m' # rest). \<not> specificityGreater x (foldl ?pick ?m' rest))"
    by (rule Cons.IH)
  have m: "\<not> specificityGreater m ?m'" and c: "\<not> specificityGreater c ?m'"
    by (auto simp: compareSpecificity_pos_iff specificityGreater_def)
  from IH have top: "\<not> specificityGreater ?m' (foldl ?pick ?m' rest)"
    by simp
  have below: "\<not> specificityGreater y (foldl ?pick ?m' rest)"
    if "\<not> specificityGreater y ?m'" for y
    using that top unfolding specificityGreater_def by (auto split: if_splits)
  show ?case
    using IH below[OF m] below[OF c]
    by (auto split: if_splits)
qed

text \<open>
  Claim C2. \<open>compareSpecificity\<close> is antisymmetric, \<open>compare(a, b) = -compare(b, a)\<close>, and
  its sign is that of the lexicographic order on (ids, classes, elements): it is positive
  exactly when \<open>a\<close> is lexicographically greater and zero exactly when the three
  components agree. So more ids compare greater whatever the classes and elements are,
  with equal ids more classes compare greater whatever the elements are, and with equal
  ids and classes more elements compare greater. \<open>findMaxSpecificity\<close> of a non-empty list
  returns a member of the list that no member exceeds lexicographically, and of the empty
  list (0,0,0); it is not the maximum of the scalar score
  \<open>ids * 100 + classes * 10 + elements\<close>: of (0,11,0) with score 110 and (1,0,0) with
  score 100 it returns (1,0,0).
\<close>

theorem compareSpecificity_lexicographic:
  fixes a b :: "('n::linordered_idom) Specificity" and xs :: "'n Specificity list"
  shows "compareSpecificity a b = - compareSpecificity b a \<and>
    (compareSpecificity a b > 0 \<longleftrightarrow> specificityGreater a b) \<and>
    (compareSpecificity a b < 0 \<longleftrightarrow> specificityGreater b a) \<and>
    (compareSpecificity a b = 0 \<longleftrightarrow>
       ids a = ids b \<and> classes a = classes b \<and> elements a = elements b) \<and>
    (ids a > ids b \<longrightarrow> compareSpecificity a b > 0) \<and>
    (ids a = ids b \<and> classes a > classes b \<longrightarrow> compareSpecificity a b > 0) \<and>
    (ids a = ids b \<and> classes a = classes b \<and> elements a > elements b
       \<longrightarrow> compareSpecificity a b > 0) \<and>
    (xs \<noteq> [] \<longrightarrow> findMaxSpecificity xs \<in> set xs \<and>
       (\<forall>x \<in> set xs. \<not> specificityGreater x (findMaxSpecificity xs)) \<and>
       (\<forall>x \<in> set xs. compareSpecificity x (findMaxSpecificity xs) \<le> 0)) \<and>
    findMaxSpecificity ([] :: 'n Specificity list) = \<lparr>ids = 0, classes = 0, elements = 0\<rparr> \<and>
    findMaxSpecificity
       [\<lparr>ids = 0, classes = 11, elements = 0\<rparr>, \<lparr>ids = 1, classes = 0, elements = 0::int\<rparr>]
       = \<lparr>ids = 1, classes = 0, elements = 0\<rparr> \<and>
    specificityToScore \<lparr>ids = 0, classes = 11, elements = 0::int\<rparr>
       > specificityToScore \<lparr>ids = 1, classes = 0, elements = 0::int\<rparr>"
proof -
  have anti: "compareSpecificity a b = - compareSpecificity b a"
    by (simp add: compareSpecificity_def)
  have neg: "compareSpecificity a b < 0 \<longleftrightarrow> specificityGreater b a"
    using compareSpecificity_pos_iff[of b a] anti by simp
  have mx: "xs \<noteq> [] \<longrightarrow> findMaxSpecificity xs \<in> set xs \<and>
       (\<forall>x \<in> set xs. \<not> specificityGreater x (findMaxSpecificity xs)) \<and>
       (\<forall>x \<in> set xs. compareSpecificity x (findMaxSpecificity xs) \<le> 0)"
  proof (cases xs)
    case Nil
    then show ?thesis by simp
  next
    case (Cons m rest)
    have "findMaxSpecificity xs \<in> set xs \<and>
          (\<forall>x \<in> set xs. \<not> specificityGreater x (findMaxSpecificity xs))"
      using foldl_max_specificity[of m rest] by (simp add: findMaxSpecificity_def Cons)
    moreover have "compareSpecificity x y \<le> 0" if "\<not> specificityGreater x y" for x y :: "'n Specificity"
      using that compareSpecificity_pos_iff[of x y] by simp
    ultimately show ?thesis by auto
  qed
  have emp: "findMaxSpecificity ([] :: 'n Specificity list) = \<lparr>ids = 0, classes = 0, elements = 0\<rparr>"
    by (simp add: findMaxSpecificity_def)
  have ex: "findMaxSpecificity
       [\<lparr>ids = 0, classes = 11, elements = 0\<rparr>, \<lparr>ids = 1, classes = 0, elements = 0::int\<rparr>]
       = \<lparr>ids = 1, classes = 0, elements = 0\<rparr>"
    by (simp add: findMaxSpecificity_def compareSpecificity_def)
  have sc: "specificityToScore \<lparr>ids = 0, classes = 11, elements = 0::int\<rparr>
       > specificityToScore \<lparr>ids = 1, classes = 0, elements = 0::int\<rparr>"
    by (simp add: specificityToScore_def)
  have l1: "ids a > ids b \<longrightarrow> compareSpecificity a b > 0"
    and l2: "ids a = ids b \<and> classes a > classes b \<longrightarrow> compareSpecificity a b > 0"
    and l3: "ids a = ids b \<and> classes a = classes b \<and> elements a > elements b
       \<longrightarrow> compareSpecificity a b > 0"
    by (simp_all add: compareSpecificity_pos_iff specificityGreater_def)
  note pos = compareSpecificity_pos_iff[of a b]
  note zero = compareSpecificity_zero_iff[of a b]
  show ?thesis
    using anti pos neg zero l1 l2 l3 mx emp ex sc
    by (intro conjI)
qed

theorem compareSpecificity_lexicographic_witness:
  "compareSpecificity \<lparr>ids = 1, classes = 0, elements = 0\<rparr>
                      \<lparr>ids = 0::int, classes = 9, elements = 9\<rparr> = 1 \<and>
   compareSpecificity \<lparr>ids = 0, classes = 9, elements = 9\<rparr>
                      \<lparr>ids = 1::int, classes = 0, elements = 0\<rparr> = - 1 \<and>
   compareSpecificity \<lparr>ids = 2, classes = 3, elements = 5\<rparr>
                      \<lparr>ids = 2::int, classes = 3, elements = 1\<rparr> > 0 \<and>
   findMaxSpecificity [\<lparr>ids = 0, classes = 0, elements = 1\<rparr>,
                       \<lparr>ids = 0::int, classes = 0, elements = 5\<rparr>]
     = \<lparr>ids = 0, classes = 0, elements = 5\<rparr> \<and>
   findMaxSpecificity [\<lparr>ids = 0, classes = 9, elements = 9\<rparr>,
                       \<lparr>ids = 1::int, classes = 0, elements = 0\<rparr>,
                       \<lparr>ids = 0, classes = 0, elements = 1\<rparr>]
     = \<lparr>ids = 1, classes = 0, elements = 0\<rparr>"
  using compareSpecificity_lexicographic
      [of "\<lparr>ids = 1, classes = 0, elements = 0\<rparr>" "\<lparr>ids = 0::int, classes = 9, elements = 9\<rparr>"
          "[\<lparr>ids = 0, classes = 9, elements = 9\<rparr>, \<lparr>ids = 1::int, classes = 0, elements = 0\<rparr>,
            \<lparr>ids = 0, classes = 0, elements = 1\<rparr>]"]
    compareSpecificity_lexicographic
      [of "\<lparr>ids = 2, classes = 3, elements = 5\<rparr>" "\<lparr>ids = 2::int, classes = 3, elements = 1\<rparr>"
          "[\<lparr>ids = 0, classes = 0, elements = 1\<rparr>, \<lparr>ids = 0::int, classes = 0, elements = 5\<rparr>]"]
  by (simp add: findMaxSpecificity_def compareSpecificity_def specificityGreater_def)

section \<open>Selector depth\<close>

lemma foldl_walk_children:
  assumes "\<And>c s. c \<in> set children \<Longrightarrow> walk f c s = foldl (\<lambda>s x. f x s) s (descendants c)"
  shows "foldl (\<lambda>s child. walk f child (f child s)) st children
       = foldl (\<lambda>s x. f x s) st (concat (map (\<lambda>c. c # descendants c) children))"
  using assms
proof (induction children arbitrary: st)
  case Nil
  show ?case by simp
next
  case (Cons c cs)
  then show ?case by simp
qed

lemma walk_descendants:
  "walk f n st = foldl (\<lambda>s x. f x s) st (descendants n)"
proof (induction n arbitrary: st)
  case (Node t v children)
  show ?case
    using foldl_walk_children[of children f st] Node.IH by simp
qed

lemma foldl_count_combinators:
  "foldl (\<lambda>s x. if node_type x = TCombinator then s + 1 else s) (d::int) ns
     = d + countCombinators ns"
  by (induction ns arbitrary: d) (auto simp: countCombinators_def)

text \<open>
  Claim C3, as amended. For every selector string that the structural parser accepts,
  \<open>calculateSelectorDepth\<close> returns 1 plus the number of combinator nodes anywhere in the
  parsed selector: the walk visits every descendant of the root, the arguments of
  functional pseudo-classes such as \<open>:not(...)\<close> included.
\<close>

theorem calculateSelectorDepth_counts_all_combinators:
  "parse selector = Some ast \<Longrightarrow>
     calculateSelectorDepth parse selector = 1 + countCombinators (descendants ast)"
  by (simp add: calculateSelectorDepth_def walk_descendants foldl_count_combinators)

theorem calculateSelectorDepth_counts_all_combinators_witness:
  "parsesTo '':not(.a > .b)'' notChildTree '':not(.a > .b)'' = Some notChildTree \<and>
   calculateSelectorDepth (parsesTo '':not(.a > .b)'' notChildTree) '':not(.a > .b)'' = 2"
  using calculateSelectorDepth_counts_all_combinators
    [of "parsesTo '':not(.a > .b)'' notChildTree" "'':not(.a > .b)''" notChildTree]
  by (simp add: parsesTo_def notChildTree_def countCombinators_def)

text \<open>
  Claim C3 as stated fails: for \<open>:not(.a > .b)\<close> the depth is 2, although no combinator
  stands at the top level of the selector, so that the claim gives 1.
\<close>

theorem calculateSelectorDepth_nested_counterexample:
  "calculateSelectorDepth (parsesTo '':not(.a > .b)'' notChildTree) '':not(.a > .b)'' = 2 \<and>
   1 + countCombinators (topLevelNodes notChildTree) = 1 \<and>
   calculateSelectorDepth (parsesTo '':not(.a > .b)'' notChildTree) '':not(.a > .b)''
     \<noteq> 1 + countCombinators (topLevelNodes notChildTree)"
  by (simp add: calculateSelectorDepth_def parsesTo_def notChildTree_def countCombinators_def
        topLevelNodes_def)

section \<open>Layout risk\<close>

lemma layoutRiskStep_additive:
  "layoutRiskStep r d = r + additivePoints d"
  by (auto simp: layoutRiskStep_def additivePoints_def isLayoutProperty_def includesChar_def Let_def)

lemma foldl_layoutRiskStep:
  "foldl layoutRiskStep r decls = r + additivePass decls"
  by (induction decls arbitrary: r) (simp_all add: additivePass_def layoutRiskStep_additive)

lemma foldl_combinationStep:
  "foldl (combinationStep present) r combos = applyCombinations present combos r"
  by (induction combos arbitrary: r)
     (auto simp: combinationStep_def mathRound_def list_all_iff)

text \<open>
  Claim C4. For every declaration list, \<open>calculateLayoutRiskForDeclarations\<close> is the
  additive pass followed by the risky combinations in definition order, each matching
  one multiplying the running total and rounding it. (The extra points are read as the
  tests of the repository have them: on top of the point of a declaration that counts.)
\<close>

theorem calculateLayoutRisk_additive_then_multiplied:
  "calculateLayoutRiskForDeclarations decls = layoutRiskSpec decls"
  by (simp add: calculateLayoutRiskForDeclarations_def layoutRiskSpec_def Let_def
        foldl_layoutRiskStep foldl_combinationStep)

theorem calculateLayoutRisk_additive_then_multiplied_witness:
  "calculateLayoutRiskForDeclarations
     [\<lparr>property = ''position'', decl_value = ''absolute'', important = False\<rparr>,
      \<lparr>property = ''top'', decl_value = ''0'', important = False\<rparr>,
      \<lparr>property = ''left'', decl_value = ''0'', important = False\<rparr>] = 8"
  using calculateLayoutRisk_additive_then_multiplied
    [of "[\<lparr>property = ''position'', decl_value = ''absolute'', important = False\<rparr>,
          \<lparr>property = ''top'', decl_value = ''0'', important = False\<rparr>,
          \<lparr>property = ''left'', decl_value = ''0'', important = False\<rparr>]"]
  by (simp add: layoutRiskSpec_def additivePass_def additivePoints_def
        LAYOUT_PROPERTIES_def RISKY_COMBINATIONS_def startsWith_def)

section \<open>Deep selectors\<close>

lemma deep_selectors_of_rule:
  "map (\<lambda>i. (issue_id i, severity i, ev_selector (evidence i), ev_depth (evidence i)))
     (concat (map (\<lambda>selector. if depth selector > maxDepth
                               then [deepSelectorIssue maxDepth result rule selector] else []) sels))
   = map (\<lambda>s. (DEEP_SELECTOR, deepSeverity (depth s - maxDepth), Some (raw s), Some (depth s)))
       (filter (\<lambda>s. depth s > maxDepth) sels)"
  by (induction sels)
     (simp_all add: deepSelectorIssue_def getSeverityForDepth_def deepSeverity_def evidenceFor_def Let_def)

lemma deep_selectors_of_result:
  "map (\<lambda>i. (issue_id i, severity i, ev_selector (evidence i), ev_depth (evidence i)))
     (concat (map (\<lambda>rule. concat (map (\<lambda>selector. if depth selector > maxDepth
                               then [deepSelectorIssue maxDepth result rule selector] else [])
                  (selectors rule))) rs))
   = map (\<lambda>s. (DEEP_SELECTOR, deepSeverity (depth s - maxDepth), Some (raw s), Some (depth s)))
       (filter (\<lambda>s. depth s > maxDepth) (concat (map selectors rs)))"
  by (induction rs) (simp_all add: deep_selectors_of_rule)

lemma deep_selectors_of_results:
  "map (\<lambda>i. (issue_id i, severity i, ev_selector (evidence i), ev_depth (evidence i)))
     (concat (map (\<lambda>result. concat (map (\<lambda>rule. concat (map (\<lambda>selector. if depth selector > maxDepth
                               then [deepSelectorIssue maxDepth result rule selector] else [])
                  (selectors rule))) (rules result))) prs))
   = deepSelectorFindings maxDepth prs"
  by (induction prs)
     (simp_all add: deep_selectors_of_result allSelectors_def deepSelectorFindings_def)

lemma checkDeepSelectors_findings:
  "map (\<lambda>i. (issue_id i, severity i, ev_selector (evidence i), ev_depth (evidence i)))
       (checkDeepSelectors prs cfg)
     = deepSelectorFindings (thresholdOr cfg maxSelectorDepth 4) prs"
  by (simp add: checkDeepSelectors_def Let_def deep_selectors_of_results)

lemma default_maxSelectorDepth:
  "thresholdOr (asAnalyzerConfig (mergeConfig emptyConfig)) maxSelectorDepth 4 = 4"
  by (simp add: thresholdOr_def asAnalyzerConfig_def mergeConfig_def emptyConfig_def
        spreadThresholds_def defaultThresholds_def orElse_def)

text \<open>
  Claim C5. \<open>checkDeepSelectors\<close> emits one \<open>DEEP_SELECTOR\<close> issue for each selector whose
  depth exceeds the configured \<open>maxSelectorDepth\<close> and for no other, in encounter order,
  with the severity of the excess \<open>depth - threshold\<close>: critical from 4, high from 2,
  medium otherwise. The threshold is the \<open>maxSelectorDepth\<close> that the configuration
  defines, and 4 when the configuration has no thresholds or leaves that one absent or
  undefined. Under the default configuration a single selector of depth 5 gives exactly
  one issue, of medium severity, and one of depth 8 a critical one.
\<close>

theorem checkDeepSelectors_flags_exactly_deep:
  "(thresholds cfg = Some t \<and> maxSelectorDepth t = Defined m \<longrightarrow>
      map (\<lambda>i. (issue_id i, severity i, ev_selector (evidence i), ev_depth (evidence i)))
          (checkDeepSelectors prs cfg)
        = deepSelectorFindings m prs) \<and>
   (thresholds cfg = None \<or>
    (thresholds cfg = Some t \<and> (maxSelectorDepth t = Absent \<or> maxSelectorDepth t = Undefined))
    \<longrightarrow>
      map (\<lambda>i. (issue_id i, severity i, ev_selector (evidence i), ev_depth (evidence i)))
          (checkDeepSelectors prs cfg)
        = deepSelectorFindings 4 prs) \<and>
   map (\<lambda>i. (issue_id i, severity i, ev_selector (evidence i), ev_depth (evidence i)))
       (checkDeepSelectors prs (asAnalyzerConfig (mergeConfig emptyConfig)))
     = deepSelectorFindings 4 prs \<and>
   (depth s = 5 \<longrightarrow>
      map (\<lambda>i. (issue_id i, severity i))
        (checkDeepSelectors [singleSelectorFile f rule s] (asAnalyzerConfig (mergeConfig emptyConfig)))
      = [(DEEP_SELECTOR, Medium)]) \<and>
   (depth s = 8 \<longrightarrow>
      map (\<lambda>i. (issue_id i, severity i))
        (checkDeepSelectors [singleSelectorFile f rule s] (asAnalyzerConfig (mergeConfig emptyConfig)))
      = [(DEEP_SELECTOR, Critical)])"
proof -
  note dflt = default_maxSelectorDepth
  note gen = checkDeepSelectors_findings
  have configured: "thresholds cfg = Some t \<and> maxSelectorDepth t = Defined m \<longrightarrow>
      thresholdOr cfg maxSelectorDepth 4 = m"
    by (simp add: thresholdOr_def)
  have fallback: "thresholds cfg = None \<or>
    (thresholds cfg = Some t \<and> (maxSelectorDepth t = Absent \<or> maxSelectorDepth t = Undefined))
    \<longrightarrow> thresholdOr cfg maxSelectorDepth 4 = 4"
    by (auto simp: thresholdOr_def)
  have one: "checkDeepSelectors [singleSelectorFile f rule s] (asAnalyzerConfig (mergeConfig emptyConfig))
        = (if depth s > 4
           then [deepSelectorIssue 4 (singleSelectorFile f rule s) (rule\<lparr>selectors := [s]\<rparr>) s]
           else [])"
    by (simp add: checkDeepSelectors_def dflt singleSelectorFile_def)
  have five: "depth s = 5 \<longrightarrow>
      map (\<lambda>i. (issue_id i, severity i))
        (checkDeepSelectors [singleSelectorFile f rule s] (asAnalyzerConfig (mergeConfig emptyConfig)))
      = [(DEEP_SELECTOR, Medium)]"
    by (simp add: one deepSelectorIssue_def getSeverityForDepth_def)
  have eight: "depth s = 8 \<longrightarrow>
      map (\<lambda>i. (issue_id i, severity i))
        (checkDeepSelectors [singleSelectorFile f rule s] (asAnalyzerConfig (mergeConfig emptyConfig)))
      = [(DEEP_SELECTOR, Critical)]"
    by (simp add: one deepSelectorIssue_def getSeverityForDepth_def)
  show ?thesis
    using configured fallback five eight
    by (simp add: gen dflt)
qed

text \<open>A configuration whose only setting is the threshold 2 for the selector depth.\<close>

theorem checkDeepSelectors_flags_exactly_deep_witness:
  "depth (selectorOfDepth 5) = 5 \<and> depth (selectorOfDepth 8) = 8 \<and>
   map (\<lambda>i. (issue_id i, severity i))
     (checkDeepSelectors [singleSelectorFile ''a.css'' plainRule (selectorOfDepth 5)]
        (asAnalyzerConfig (mergeConfig emptyConfig))) = [(DEEP_SELECTOR, Medium)] \<and>
   map (\<lambda>i. (issue_id i, severity i))
     (checkDeepSelectors [singleSelectorFile ''a.css'' plainRule (selectorOfDepth 8)]
        (asAnalyzerConfig (mergeConfig emptyConfig))) = [(DEEP_SELECTOR, Critical)] \<and>
   checkDeepSelectors [singleSelectorFile ''a.css'' plainRule (selectorOfDepth 4)]
        (asAnalyzerConfig (mergeConfig emptyConfig)) = [] \<and>
   map (\<lambda>i. (issue_id i, severity i, ev_selector (evidence i), ev_depth (evidence i)))
     (checkDeepSelectors [singleSelectorFile ''a.css'' plainRule (selectorOfDepth 3)]
        (emptyConfig\<lparr>thresholds := Some (defaultThresholds\<lparr>maxSelectorDepth := Defined 2\<rparr>)\<rparr>))
     = [(DEEP_SELECTOR, Medium, Some ''.a .b'', Some 3)] \<and>
   checkDeepSelectors [singleSelectorFile ''a.css'' plainRule (selectorOfDepth 3)]
        (emptyConfig\<lparr>thresholds := Some (defaultThresholds\<lparr>maxSelectorDepth := Undefined\<rparr>)\<rparr>)
     = []"
proof -
  have d: "depth (selectorOfDepth 5) = 5" "depth (selectorOfDepth 8) = 8"
    by (simp_all add: selectorOfDepth_def)
  have sel: "allSelectors [singleSelectorFile ''a.css'' plainRule (selectorOfDepth k)]
               = [selectorOfDepth k]" for k
    by (simp add: allSelectors_def singleSelectorFile_def)
  have four: "deepSelectorFindings 4 [singleSelectorFile ''a.css'' plainRule (selectorOfDepth 4)] = []"
             "deepSelectorFindings 4 [singleSelectorFile ''a.css'' plainRule (selectorOfDepth 3)] = []"
    unfolding deepSelectorFindings_def sel by (simp_all add: selectorOfDepth_def)
  have two: "deepSelectorFindings 2 [singleSelectorFile ''a.css'' plainRule (selectorOfDepth 3)]
               = [(DEEP_SELECTOR, Medium, Some ''.a .b'', Some 3)]"
    unfolding deepSelectorFindings_def sel by (simp add: selectorOfDepth_def deepSeverity_def)
  have t: "thresholds (emptyConfig\<lparr>thresholds := Some (defaultThresholds\<lparr>maxSelectorDepth := Defined 2\<rparr>)\<rparr>)
             = Some (defaultThresholds\<lparr>maxSelectorDepth := Defined 2\<rparr>)"
          "maxSelectorDepth (defaultThresholds\<lparr>maxSelectorDepth := Defined 2\<rparr>) = Defined 2"
          "thresholds (emptyConfig\<lparr>thresholds := Some (defaultThresholds\<lparr>maxSelectorDepth := Undefined\<rparr>)\<rparr>)
             = Some (defaultThresholds\<lparr>maxSelectorDepth := Undefined\<rparr>)"
          "maxSelectorDepth (defaultThresholds\<lparr>maxSelectorDepth := Undefined\<rparr>) = Undefined"
    by simp_all
  note a = checkDeepSelectors_flags_exactly_deep
      [of "emptyConfig\<lparr>thresholds := Some (defaultThresholds\<lparr>maxSelectorDepth := Defined 2\<rparr>)\<rparr>"
          "defaultThresholds\<lparr>maxSelectorDepth := Defined 2\<rparr>" 2
          "[singleSelectorFile ''a.css'' plainRule (selectorOfDepth 3)]"
          "selectorOfDepth 5" "''a.css''" plainRule]
  note b = checkDeepSelectors_flags_exactly_deep
      [of "emptyConfig\<lparr>thresholds := Some (defaultThresholds\<lparr>maxSelectorDepth := Undefined\<rparr>)\<rparr>"
          "defaultThresholds\<lparr>maxSelectorDepth := Undefined\<rparr>" 0
          "[singleSelectorFile ''a.css'' plainRule (selectorOfDepth 3)]"
          "selectorOfDepth 8" "''a.css''" plainRule]
  note c = checkDeepSelectors_flags_exactly_deep
      [of emptyConfig defaultThresholds 0
          "[singleSelectorFile ''a.css'' plainRule (selectorOfDepth 4)]"
          "selectorOfDepth 8" "''a.css''" plainRule]
  have five: "map (\<lambda>i. (issue_id i, severity i))
     (checkDeepSelectors [singleSelectorFile ''a.css'' plainRule (selectorOfDepth 5)]
        (asAnalyzerConfig (mergeConfig emptyConfig))) = [(DEEP_SELECTOR, Medium)]"
    using a d by blast
  have eight: "map (\<lambda>i. (issue_id i, severity i))
     (checkDeepSelectors [singleSelectorFile ''a.css'' plainRule (selectorOfDepth 8)]
        (asAnalyzerConfig (mergeConfig emptyConfig))) = [(DEEP_SELECTOR, Critical)]"
    using b d by blast
  have cfg2: "map (\<lambda>i. (issue_id i, severity i, ev_selector (evidence i), ev_depth (evidence i)))
     (checkDeepSelectors [singleSelectorFile ''a.css'' plainRule (selectorOfDepth 3)]
        (emptyConfig\<lparr>thresholds := Some (defaultThresholds\<lparr>maxSelectorDepth := Defined 2\<rparr>)\<rparr>))
     = [(DEEP_SELECTOR, Medium, Some ''.a .b'', Some 3)]"
    using a t(1,2) two by presburger
  have "map (\<lambda>i. (issue_id i, severity i, ev_selector (evidence i), ev_depth (evidence i)))
     (checkDeepSelectors [singleSelectorFile ''a.css'' plainRule (selectorOfDepth 3)]
        (emptyConfig\<lparr>thresholds := Some (defaultThresholds\<lparr>maxSelectorDepth := Undefined\<rparr>)\<rparr>))
     = []"
    using b t(3,4) four(2) by presburger
  then have undef: "checkDeepSelectors [singleSelectorFile ''a.css'' plainRule (selectorOfDepth 3)]
        (emptyConfig\<lparr>thresholds := Some (defaultThresholds\<lparr>maxSelectorDepth := Undefined\<rparr>)\<rparr>)
     = []"
    by simp
  have "map (\<lambda>i. (issue_id i, severity i, ev_selector (evidence i), ev_depth (evidence i)))
     (checkDeepSelectors [singleSelectorFile ''a.css'' plainRule (selectorOfDepth 4)]
        (asAnalyzerConfig (mergeConfig emptyConfig))) = []"
    using c four(1) by presburger
  then have none: "checkDeepSelectors [singleSelectorFile ''a.css'' plainRule (selectorOfDepth 4)]
        (asAnalyzerConfig (mergeConfig emptyConfig)) = []"
    by simp
  show ?thesis
    using d five eight none cfg2 undef by (intro conjI)
qed

section \<open>Missing layers\<close>

lemma foldl_important_rules:
  "foldl (\<lambda>total rule. total + int (length (filter important (declarations rule)))) a rs
     = a + int (length (filter important (concat (map declarations rs))))"
  by (induction rs arbitrary: a) simp_all

lemma foldl_layerTotalsStep:
  "foldl layerTotalsStep acc prs =
     \<lparr>lt_totalRules = lt_totalRules acc + totalRulesOf prs,
      lt_totalImportant = lt_totalImportant acc + totalImportantOf prs,
      lt_filesWithManyRules = lt_filesWithManyRules acc + filesWithManyRulesOf prs\<rparr>"
proof (induction prs arbitrary: acc)
  case Nil
  show ?case by (simp add: totalRulesOf_def totalImportantOf_def filesWithManyRulesOf_def)
next
  case (Cons r prs)
  have "foldl layerTotalsStep acc (r # prs) = foldl layerTotalsStep (layerTotalsStep acc r) prs"
    by simp
  also have "\<dots> =
     \<lparr>lt_totalRules = lt_totalRules (layerTotalsStep acc r) + totalRulesOf prs,
      lt_totalImportant = lt_totalImportant (layerTotalsStep acc r) + totalImportantOf prs,
      lt_filesWithManyRules = lt_filesWithManyRules (layerTotalsStep acc r) + filesWithManyRulesOf prs\<rparr>"
    by (rule Cons.IH)
  also have "\<dots> =
     \<lparr>lt_totalRules = lt_totalRules acc + totalRulesOf (r # prs),
      lt_totalImportant = lt_totalImportant acc + totalImportantOf (r # prs),
      lt_filesWithManyRules = lt_filesWithManyRules acc + filesWithManyRulesOf (r # prs)\<rparr>"
    by (simp add: layerTotalsStep_def Let_def foldl_important_rules
          totalRulesOf_def totalImportantOf_def importantCountOf_def filesWithManyRulesOf_def)
  finally show ?case .
qed

lemma checkMissingLayers_eq:
  "checkMissingLayers prs cfg =
     (if \<not> list_ex usesLayers prs \<and>
         (totalRulesOf prs \<ge> 50 \<or> totalImportantOf prs \<ge> 5 \<or> filesWithManyRulesOf prs \<ge> 3)
      then [missingLayersIssue prs (totalRulesOf prs) (totalImportantOf prs)]
      else [])"
  by (simp add: checkMissingLayers_def Let_def foldl_layerTotalsStep)

text \<open>
  Claim C6. \<open>checkMissingLayers\<close> emits at most one issue per run. It emits one exactly
  when no parse result uses layers and the rules of all files number at least 50, or
  their \<open>!important\<close> declarations at least 5, or at least 3 files have 20 rules or more.
  The issue is a \<open>MISSING_LAYERS\<close> issue of medium severity when there are at least 200
  rules or at least 20 \<open>!important\<close> declarations, and of low severity otherwise. When a
  file uses \<open>@layer\<close>, nothing is emitted.
\<close>

theorem checkMissingLayers_fires_once:
  "length (checkMissingLayers prs cfg) \<le> 1 \<and>
   (checkMissingLayers prs cfg \<noteq> [] \<longleftrightarrow>
      (\<not> (\<exists>r \<in> set prs. usesLayers r) \<and>
       (totalRulesOf prs \<ge> 50 \<or> totalImportantOf prs \<ge> 5 \<or> filesWithManyRulesOf prs \<ge> 3))) \<and>
   (\<forall>i \<in> set (checkMissingLayers prs cfg).
      issue_id i = MISSING_LAYERS \<and>
      severity i = (if totalRulesOf prs \<ge> 200 \<or> totalImportantOf prs \<ge> 20 then Medium else Low)) \<and>
   ((\<exists>r \<in> set prs. usesLayers r) \<longrightarrow> checkMissingLayers prs cfg = [])"
  by (simp add: checkMissingLayers_eq list_ex_iff missingLayersIssue_def
        getSeverityForMissingLayers_def Let_def)

theorem checkMissingLayers_fires_once_witness:
  "map (\<lambda>i. (issue_id i, severity i)) (checkMissingLayers [fiftyRuleFile False] emptyConfig)
     = [(MISSING_LAYERS, Low)] \<and>
   checkMissingLayers [fiftyRuleFile True] emptyConfig = []"
proof -
  have t: "totalRulesOf [fiftyRuleFile False] = 50"
    by (simp add: totalRulesOf_def fiftyRuleFile_def)
  have i: "totalImportantOf [fiftyRuleFile False] = 0"
    by (simp add: totalImportantOf_def importantCountOf_def fiftyRuleFile_def plainRule_def)
  have u: "\<not> (\<exists>r \<in> set [fiftyRuleFile False]. usesLayers r)"
          "\<exists>r \<in> set [fiftyRuleFile True]. usesLayers r"
    by (simp_all add: fiftyRuleFile_def)
  from checkMissingLayers_fires_once[of "[fiftyRuleFile False]" emptyConfig]
       checkMissingLayers_fires_once[of "[fiftyRuleFile True]" emptyConfig] t i u
  show ?thesis
    by (cases "checkMissingLayers [fiftyRuleFile False] emptyConfig") auto
qed

section \<open>The empty input\<close>

lemma dbl_zero: "dbl 0 = 0"
  by (simp add: dbl_def)

lemma dadd_zero: "dadd 0 0 = 0"
  by (simp add: dadd_def dbl_zero)

lemma dmul_zero: "dmul 0 y = 0"
  by (simp add: dmul_def dbl_zero)

lemma ddiv_zero: "ddiv 0 y = 0"
  by (simp add: ddiv_def dbl_zero)

lemma pushAll_Nil: "pushAll argLimit collected [] = Inr collected"
  by (simp add: pushAll_def spreadFits_def)

lemma andThen_Inr: "andThen (Inr v) f = f v"
  by (simp add: andThen_def)

lemma andThen_Inl: "andThen (Inl e) f = Inl e"
  by (simp add: andThen_def)

lemma checks_Nil:
  "checkDeepSelectors [] c = []"
  "checkHighSpecificity [] c = []"
  "checkImportantAbuse [] c = []"
  "checkLayoutRiskHotspot [] c = []"
  "checkMissingLayers [] c = []"
  by (simp_all add: checkDeepSelectors_def checkHighSpecificity_def checkImportantAbuse_def
        checkLayoutRiskHotspot_def checkMissingLayers_def allDeclarations_def allRules_def
        Let_def)

lemma checkDuplicateDeclarations_Nil: "checkDuplicateDeclarations [] c = Inr []"
  by (simp add: checkDuplicateDeclarations_def detectDuplicateDeclarations_def
        allDeclarations_def allRules_def Let_def)

lemma checkOverridePressure_Nil: "checkOverridePressure argLimit [] c = Inr []"
  by (simp add: checkOverridePressure_def detectOverridePressure_def
        allDeclarations_def allRules_def Let_def)

lemma runAllRules_Nil: "runAllRules argLimit [] c = Inr []"
  by (simp add: runAllRules_def checks_Nil checkDuplicateDeclarations_Nil
        checkOverridePressure_Nil pushAll_Nil andThen_Inr)

lemma calculateGlobalMetrics_Nil: "calculateGlobalMetrics argLimit [] = Inr zeroMetrics"
  by (simp add: calculateGlobalMetrics_def zeroMetrics_def)

lemma specificityScore_zero: "calculateSpecificityScore zeroMetrics [] = 0"
  by (simp add: calculateSpecificityScore_def zeroMetrics_def specificityToScore_def
        specificityToScoreDouble_def dmul_zero dadd_zero)

lemma cascadeScore_zero: "calculateCascadeScore zeroMetrics [] = 0"
  by (simp add: calculateCascadeScore_def zeroMetrics_def ddiv_zero dmul_zero dadd_zero)

lemma duplicationScore_zero: "calculateDuplicationScore zeroMetrics [] = 0"
  by (simp add: calculateDuplicationScore_def zeroMetrics_def ddiv_zero dmul_zero dadd_zero)

lemma layoutRiskScore_zero: "calculateLayoutRiskScore zeroMetrics [] = 0"
  by (simp add: calculateLayoutRiskScore_def zeroMetrics_def ddiv_zero dmul_zero dadd_zero)

lemma overallScore_zero:
  "calculateOverallScore \<lparr>cs_specificity = 0, cascade = 0, duplication = 0, layoutRisk = 0\<rparr> = 0"
  by (simp add: calculateOverallScore_def mathRound_def floor_eq_iff dmul_zero dadd_zero)

lemma generateSummary_zero:
  "generateSummary zeroMetrics [] =
     \<lparr>overallScore = 0,
      categoryScores = \<lparr>cs_specificity = 0, cascade = 0, duplication = 0, layoutRisk = 0\<rparr>,
      grade = GradeA, totalIssues = 0,
      issuesBySeverity = \<lparr>critical = 0, high = 0, medium = 0, low = 0\<rparr>\<rparr>"
  by (simp add: generateSummary_def calculateCategoryScores_def specificityScore_zero
        cascadeScore_zero duplicationScore_zero layoutRiskScore_zero overallScore_zero
        scoreToGrade_def countIssuesBySeverity_def)

lemma generateRecommendations_Nil: "generateRecommendations [] = []"
  by (simp add: generateRecommendations_def issuesOfType_def)

lemma extractTopSelectors_Nil: "extractTopSelectors [] n = []"
  by (simp add: extractTopSelectors_def allTopSelectorEntries_def sliceFromStart_def
        split: JsNumber.splits)

text \<open>
  Claim C7. Analyzing no parse results, under any configuration and at any time, returns
  a complete report: \<open>totalFiles = 0\<close> and every other count zero, no file metrics, no
  issues, no top selectors, no recommendations, every score 0 and the grade A.
\<close>

theorem generateReport_empty_input:
  "generateReport argLimit now [] cfg =
     Inr \<lparr>version = ''0.1.0'', timestamp = now,
          summary =
            \<lparr>overallScore = 0,
             categoryScores = \<lparr>cs_specificity = 0, cascade = 0, duplication = 0, layoutRisk = 0\<rparr>,
             grade = GradeA, totalIssues = 0,
             issuesBySeverity = \<lparr>critical = 0, high = 0, medium = 0, low = 0\<rparr>\<rparr>,
          globalMetrics =
            \<lparr>totalFiles = 0, totalRules = 0, totalSelectors = 0, totalDeclarations = 0,
             gm_maxSelectorDepth = 0, avgSelectorDepth = 0,
             maxSpecificity = \<lparr>ids = 0, classes = 0, elements = 0\<rparr>,
             avgSpecificity = \<lparr>ids = 0, classes = 0, elements = 0\<rparr>,
             totalImportantCount = 0, totalDuplicateDeclarations = 0,
             overallLayoutRiskScore = 0\<rparr>,
          fileMetrics = [], issues = [], topSelectors = [], recommendations = []\<rparr>"
  by (simp add: generateReport_def runAllRules_Nil calculateGlobalMetrics_Nil andThen_Inr
        generateSummary_zero generateRecommendations_Nil extractTopSelectors_Nil
        zeroMetrics_def[symmetric])

section \<open>Thresholds\<close>




section \<open>Configuration defaults\<close>

text \<open>
  Claim C9, evaluated at the empty user configuration. Every threshold and \<open>maxScore\<close>
  get their defaults and six toggles are \<open>true\<close>, but the toggle \<open>missingLayers\<close> is left
  undefined: the defaults that \<open>mergeConfig\<close> spreads do not list it, where the
  \<open>DEFAULT_CONFIG\<close> of types.ts has \<open>missingLayers: true\<close>.
\<close>

theorem mergeConfig_empty_omits_missingLayers:
  "mergeConfig emptyConfig =
     \<lparr>req_include = [''**/*.css''],
      req_exclude = [''**/node_modules/**'', ''**/dist/**'', ''**/vendor/**''],
      req_thresholds = \<lparr>maxSelectorDepth = Defined 4, maxSpecificityScore = Defined 40,
                        maxImportantPerFile = Defined 5, maxDuplicateDeclarations = Defined 3\<rparr>,
      req_ignorePatterns = [],
      req_maxScore = Num 100,
      req_rules = \<lparr>deepSelectors = Defined True, highSpecificity = Defined True,
                   importantAbuse = Defined True, duplicateDeclarations = Defined True,
                   layoutRiskHotspot = Defined True, overridePressure = Defined True,
                   missingLayers = Absent\<rparr>\<rparr>"
  by (simp add: mergeConfig_def emptyConfig_def spreadThresholds_def spreadRules_def
        defaultThresholds_def defaultRules_def)

section \<open>Top selectors\<close>



















section \<open>Purity of the analysis\<close>

subsection \<open>Sequencing\<close>








subsection \<open>The maps of the detectors\<close>















subsection \<open>How many issues a rule finds\<close>














subsection \<open>The rules together\<close>




subsection \<open>The report\<close>










subsection \<open>One property declared many times\<close>

















end
